theory Spec2Isabelle
  imports Complex_Main "HOL-Library.Multiset" "HOL-Library.Log_Nat"
begin

section \<open>Data model\<close>

text \<open>
  The pricing service keeps four tables (Sequelize models over SQLite). A table is the
  list of its rows in insertion order. Only the columns the price service reads or
  writes are kept: the \<open>description\<close>, \<open>duration_days\<close>, \<open>max_ads_count\<close>,
  \<open>state_province\<close> and \<open>country\<close> columns and the \<open>createdAt\<close>/\<open>updatedAt\<close>
  columns of packages, municipalities and prices never reach a result of the service.

  JavaScript numbers that hold identifiers, cent amounts and years are integers that a
  Number holds exactly, modelled as \<open>int\<close>; a \<open>Date\<close> is its time value, the
  milliseconds since the epoch, an \<open>int\<close>. The display amount, the only non-integral
  number, is a binary64 value, kept as the rational number it denotes.
  An optional or nullable column or parameter is an \<open>option\<close>: \<open>None\<close> stands for
  \<open>undefined\<close> and for SQL \<open>NULL\<close>.
\<close>

type_synonym timestamp = int

record Package =
  pkg_id :: int
  pkg_name :: string
  package_code :: string
  pkg_is_active :: bool

record Municipality =
  mun_id :: int
  municipality_name :: string
  municipality_code :: string
  mun_is_active :: bool

record Price =
  price_id :: int
  price_packageId :: int
  price_municipalityId :: "int option"
  price_priceCents :: int
  price_is_active :: bool
  price_currency_code :: string

record PriceHistory =
  hist_id :: int
  hist_packageId :: int
  hist_municipalityId :: "int option"
  hist_priceCents :: int
  hist_currency_code :: string
  hist_createdAt :: timestamp

text \<open>
  The database: the four tables and the two \<open>AUTOINCREMENT\<close> counters that the
  service advances (the largest row id ever handed out for \<open>prices\<close> and for
  \<open>price_histories\<close>).
\<close>

record database =
  packages :: "Package list"
  municipalities :: "Municipality list"
  prices :: "Price list"
  price_histories :: "PriceHistory list"
  prices_seq :: int
  price_histories_seq :: int

subsection \<open>Result shapes (\<open>price.types.ts\<close>)\<close>

record MunicipalityInfo =
  mi_id :: int
  mi_municipality_name :: string
  mi_municipality_code :: string

record PackageInfo =
  pki_id :: int
  pki_name :: string
  pki_package_code :: string

record PriceInfo =
  pi_id :: int
  pi_packageId :: int
  pi_municipalityId :: "int option"
  pi_priceCents :: int
  pi_priceDisplay :: rat
  pi_currency_code :: string

text \<open>\<open>PriceInfo & { municipality?: MunicipalityInfo }\<close>\<close>

record UpdatedPrice = PriceInfo +
  upd_municipality :: "MunicipalityInfo option"

record PriceUpdateResult =
  pur_success :: bool
  pur_price :: UpdatedPrice
  pur_message :: string

text \<open>\<open>PriceInfo & { package: PackageInfo; municipality?: MunicipalityInfo }\<close>\<close>

record CurrentPrice = PriceInfo +
  cur_package :: PackageInfo
  cur_municipality :: "MunicipalityInfo option"

record CurrentPriceResult =
  cpr_success :: bool
  cpr_price :: "CurrentPrice option"
  cpr_error :: "string option"

record PriceHistoryEntry =
  he_id :: int
  he_packageId :: int
  he_municipalityId :: "int option"
  he_priceCents :: int
  he_priceDisplay :: rat
  he_currency_code :: string
  he_createdAt :: timestamp
  he_municipality :: "MunicipalityInfo option"

record PriceHistoryResult =
  phr_success :: bool
  phr_history :: "PriceHistoryEntry list option"
  phr_error :: "string option"

section \<open>JavaScript primitives used by the service\<close>

text \<open>
  A Number is an IEEE 754 binary64 value: zero, or \<open>m * 2^k\<close> with a 53-bit significand
  \<open>m\<close>. Arithmetic on Numbers computes the exact result and rounds it to the nearest
  such value, a tie to the one with an even significand. \<open>binade x\<close> is the exponent
  \<open>e\<close> with \<open>2^e \<le> x < 2^(e+1)\<close> of a positive \<open>x\<close>, so that the Numbers around \<open>x\<close>
  are \<open>2^(e-52)\<close> apart. The exponent is not bounded here: the service divides and
  multiplies amounts by 100 only, and no amount below \<open>10^300\<close> cents takes that out of
  binary64's normal range.
\<close>

definition binade :: "rat \<Rightarrow> int" where
  "binade x =
     (if 1 \<le> x then bitlen \<lfloor>x\<rfloor> - 1
      else (let k = bitlen \<lfloor>1 / x\<rfloor> - 1
            in if x = 2 powi (- k) then - k else - k - 1))"

definition round_half_even :: "rat \<Rightarrow> int" where
  "round_half_even y =
     (let f = \<lfloor>y\<rfloor>; d = y - of_int f
      in if d < 1 / 2 then f
         else if 1 / 2 < d then f + 1
         else if even f then f else f + 1)"

definition nearest_double :: "rat \<Rightarrow> rat" where
  "nearest_double x =
     (if x = 0 then 0
      else (let ulp = 2 powi (binade \<bar>x\<bar> - 52)
            in of_int (round_half_even (x / ulp)) * ulp))"

text \<open>
  \<open>Math.round\<close> rounds to the nearest integer, a tie towards \<open>+\<infinity>\<close>; its result is
  exact.
\<close>

definition Math_round :: "rat \<Rightarrow> int" where
  "Math_round x = \<lfloor>x + 1 / 2\<rfloor>"

text \<open>
  Truthiness of an optional number: \<open>undefined\<close> and \<open>0\<close> are falsy, every other
  integer is truthy.
\<close>

definition truthy :: "int option \<Rightarrow> bool" where
  "truthy m = (case m of None \<Rightarrow> False | Some n \<Rightarrow> n \<noteq> 0)"

text \<open>\<open>m || undefined\<close>\<close>

definition or_undefined :: "int option \<Rightarrow> int option" where
  "or_undefined m = (if truthy m then m else None)"

text \<open>
  A template literal prints an integer in decimal. (That is what a Number of magnitude
  below \<open>10^21\<close> prints, which covers every identifier an \<open>INTEGER\<close> column can hold;
  from \<open>10^21\<close> on JavaScript switches to exponent notation, which is not modelled.)
\<close>

definition digit_char :: "nat \<Rightarrow> char" where
  "digit_char d =
     (if d = 0 then CHR ''0'' else if d = 1 then CHR ''1'' else if d = 2 then CHR ''2''
      else if d = 3 then CHR ''3'' else if d = 4 then CHR ''4'' else if d = 5 then CHR ''5''
      else if d = 6 then CHR ''6'' else if d = 7 then CHR ''7'' else if d = 8 then CHR ''8''
      else CHR ''9'')"

fun show_nat :: "nat \<Rightarrow> string" where
  "show_nat n =
     (if n < 10 then [digit_char n]
      else show_nat (n div 10) @ [digit_char (n mod 10)])"

declare show_nat.simps [simp del]

definition show_int :: "int \<Rightarrow> string" where
  "show_int i = (if i < 0 then CHR ''-'' # show_nat (nat (- i)) else show_nat (nat i))"

section \<open>The price service\<close>

subsection \<open>\<open>convertCentsToDisplay\<close>\<close>

text \<open>
  \<open>Math.round((priceCents / 100) * 100) / 100\<close>: a division, a multiplication and a
  division of Numbers, each rounded to binary64.
\<close>

definition convertCentsToDisplay :: "int \<Rightarrow> rat" where
  "convertCentsToDisplay priceCents =
     nearest_double
       (of_int (Math_round
          (nearest_double (nearest_double (of_int priceCents / 100) * 100))) / 100)"

subsection \<open>Database calls\<close>

text \<open>
  Every call into the database may raise: a connection error, a constraint of the
  schema, a validation of the model. \<open>faults c\<close> is the message of the error that
  call \<open>c\<close> raises, \<open>None\<close> when it returns normally. Each kind of call is made at
  most once per service operation.
\<close>

datatype db_call =
  BeginTransaction | FindPackage | FindMunicipality | FindPrice | UpdatePrice
  | CreatePrice | CreateHistory | Commit | Rollback | FindHistory

type_synonym faults = "db_call \<Rightarrow> string option"

definition no_faults :: faults where
  "no_faults = (\<lambda>c. None)"

text \<open>\<open>Package.findOne({ where: { id: packageId, is_active: true } })\<close>\<close>

definition findActivePackage :: "database \<Rightarrow> int \<Rightarrow> Package option" where
  "findActivePackage db packageId =
     find (\<lambda>p. pkg_id p = packageId \<and> pkg_is_active p) (packages db)"

text \<open>\<open>Municipality.findOne({ where: { id: municipalityId, is_active: true } })\<close>\<close>

definition findActiveMunicipality :: "database \<Rightarrow> int option \<Rightarrow> Municipality option" where
  "findActiveMunicipality db municipalityId =
     find (\<lambda>m. Some (mun_id m) = municipalityId \<and> mun_is_active m) (municipalities db)"

text \<open>
  The \<open>municipalityId\<close> of a where clause: the given identifier when it is truthy,
  \<open>null\<close> otherwise.
\<close>

definition whereMunicipalityId :: "int option \<Rightarrow> int option" where
  "whereMunicipalityId municipalityId =
     (if truthy municipalityId then municipalityId else None)"

text \<open>\<open>Price.findOne({ where: { packageId, is_active: true, municipalityId } })\<close>\<close>

definition findActivePrice :: "database \<Rightarrow> int \<Rightarrow> int option \<Rightarrow> Price option" where
  "findActivePrice db packageId municipalityKey =
     find (\<lambda>r. price_packageId r = packageId \<and> price_is_active r
              \<and> price_municipalityId r = municipalityKey) (prices db)"

text \<open>
  The row id of an inserted row: one more than the largest id in the table and the
  largest id ever handed out (\<open>INTEGER PRIMARY KEY AUTOINCREMENT\<close>).
\<close>

definition next_rowid :: "int \<Rightarrow> int list \<Rightarrow> int" where
  "next_rowid seq ids = 1 + fold max ids seq"

text \<open>\<open>existingPrice.update({ priceCents, currency_code }, { transaction })\<close>\<close>

definition Price_update ::
  "faults \<Rightarrow> database \<Rightarrow> Price \<Rightarrow> int \<Rightarrow> string \<Rightarrow> string + (database \<times> Price)" where
  "Price_update faults db existingPrice priceCents currency =
     (case faults UpdatePrice of
        Some e \<Rightarrow> Inl e
      | None \<Rightarrow>
          Inr (db\<lparr>prices :=
                     map (\<lambda>r. if price_id r = price_id existingPrice
                               then r\<lparr>price_priceCents := priceCents,
                                      price_currency_code := currency\<rparr>
                               else r) (prices db)\<rparr>,
               existingPrice\<lparr>price_priceCents := priceCents,
                              price_currency_code := currency\<rparr>))"

text \<open>\<open>Price.create({ packageId, municipalityId, priceCents, is_active, currency_code }, { transaction })\<close>\<close>

definition Price_create ::
  "faults \<Rightarrow> database \<Rightarrow> int \<Rightarrow> int option \<Rightarrow> int \<Rightarrow> bool \<Rightarrow> string
     \<Rightarrow> string + (database \<times> Price)" where
  "Price_create faults db packageId municipalityId priceCents is_active currency =
     (case faults CreatePrice of
        Some e \<Rightarrow> Inl e
      | None \<Rightarrow>
          (let newPrice =
                 \<lparr>price_id = next_rowid (prices_seq db) (map price_id (prices db)),
                  price_packageId = packageId,
                  price_municipalityId = municipalityId,
                  price_priceCents = priceCents,
                  price_is_active = is_active,
                  price_currency_code = currency\<rparr>
           in Inr (db\<lparr>prices := prices db @ [newPrice], prices_seq := price_id newPrice\<rparr>,
                   newPrice)))"

text \<open>
  \<open>PriceHistory.create({ packageId, municipalityId, priceCents, currency_code }, { transaction })\<close>;
  \<open>createdAt\<close> is the time of the call.
\<close>

definition PriceHistory_create ::
  "faults \<Rightarrow> timestamp \<Rightarrow> database \<Rightarrow> int \<Rightarrow> int option \<Rightarrow> int \<Rightarrow> string
     \<Rightarrow> string + database" where
  "PriceHistory_create faults now db packageId municipalityId priceCents currency =
     (case faults CreateHistory of
        Some e \<Rightarrow> Inl e
      | None \<Rightarrow>
          (let newHistory =
                 \<lparr>hist_id = next_rowid (price_histories_seq db)
                               (map hist_id (price_histories db)),
                  hist_packageId = packageId,
                  hist_municipalityId = municipalityId,
                  hist_priceCents = priceCents,
                  hist_currency_code = currency,
                  hist_createdAt = now\<rparr>
           in Inr (db\<lparr>price_histories := price_histories db @ [newHistory],
                      price_histories_seq := hist_id newHistory\<rparr>)))"

text \<open>
  The row joined by \<open>include: [{ model: Municipality, as: 'municipality', required: false }]\<close>:
  a left outer join on the identifier alone, \<open>null\<close> when no municipality has it.
\<close>

definition includeMunicipality :: "database \<Rightarrow> int option \<Rightarrow> Municipality option" where
  "includeMunicipality db municipalityId =
     (case municipalityId of
        None \<Rightarrow> None
      | Some m \<Rightarrow> find (\<lambda>x. mun_id x = m) (municipalities db))"

subsection \<open>Messages\<close>

definition package_not_found :: "int \<Rightarrow> string" where
  "package_not_found packageId =
     ''Package with ID '' @ show_int packageId @ '' not found or inactive''"

definition show_optional :: "int option \<Rightarrow> string" where
  "show_optional m = (case m of None \<Rightarrow> ''undefined'' | Some n \<Rightarrow> show_int n)"

definition municipality_not_found :: "int option \<Rightarrow> string" where
  "municipality_not_found municipalityId =
     ''Municipality with ID '' @ show_optional municipalityId @ '' not found or inactive''"

definition no_active_price :: "int \<Rightarrow> int option \<Rightarrow> string" where
  "no_active_price packageId municipalityId =
     ''No active price found for package '' @ show_int packageId
       @ (if truthy municipalityId
          then '' in municipality '' @ show_optional municipalityId
          else [])"

text \<open>
  The message of the \<open>TypeError\<close> raised by reading \<open>.id\<close> of a joined municipality
  that is \<open>null\<close>.
\<close>

definition null_municipality :: string where
  "null_municipality = ''Cannot read properties of null (reading 'id')''"

definition toMunicipalityInfo :: "Municipality \<Rightarrow> MunicipalityInfo" where
  "toMunicipalityInfo m =
     \<lparr>mi_id = mun_id m,
      mi_municipality_name = municipality_name m,
      mi_municipality_code = municipality_code m\<rparr>"

definition toPackageInfo :: "Package \<Rightarrow> PackageInfo" where
  "toPackageInfo p =
     \<lparr>pki_id = pkg_id p, pki_name = pkg_name p, pki_package_code = package_code p\<rparr>"

subsection \<open>\<open>updatePackagePrice\<close>\<close>

text \<open>
  The municipality check of \<open>updatePackagePrice\<close>: skipped when the identifier is
  falsy, otherwise the active municipality or the error thrown.
\<close>

definition requireMunicipality ::
  "faults \<Rightarrow> database \<Rightarrow> int option \<Rightarrow> string + Municipality option" where
  "requireMunicipality faults db municipalityId =
     (if truthy municipalityId then
        (case faults FindMunicipality of
           Some e \<Rightarrow> Inl e
         | None \<Rightarrow>
             (case findActiveMunicipality db municipalityId of
                None \<Rightarrow> Inl (municipality_not_found municipalityId)
              | Some municipalityRecord \<Rightarrow> Inr (Some municipalityRecord)))
      else Inr None)"

text \<open>The find-or-create step: update the active row of the key in place, or insert one.\<close>

definition upsertPrice ::
  "faults \<Rightarrow> database \<Rightarrow> int \<Rightarrow> int \<Rightarrow> int option \<Rightarrow> string + (database \<times> Price)" where
  "upsertPrice faults db packageId priceCents municipalityId =
     (case faults FindPrice of
        Some e \<Rightarrow> Inl e
      | None \<Rightarrow>
          (case findActivePrice db packageId (whereMunicipalityId municipalityId) of
             Some existingPrice \<Rightarrow> Price_update faults db existingPrice priceCents ''SEK''
           | None \<Rightarrow>
               Price_create faults db packageId (or_undefined municipalityId) priceCents
                 True ''SEK''))"

definition updateResult :: "Price \<Rightarrow> Municipality option \<Rightarrow> PriceUpdateResult" where
  "updateResult newPrice municipalityRecord =
     \<lparr>pur_success = True,
      pur_price =
        \<lparr>pi_id = price_id newPrice,
         pi_packageId = price_packageId newPrice,
         pi_municipalityId = or_undefined (price_municipalityId newPrice),
         pi_priceCents = price_priceCents newPrice,
         pi_priceDisplay = convertCentsToDisplay (price_priceCents newPrice),
         pi_currency_code = price_currency_code newPrice,
         upd_municipality = map_option toMunicipalityInfo municipalityRecord\<rparr>,
      pur_message = ''Price updated successfully''\<rparr>"

text \<open>
  The body of the \<open>try\<close> block after the transaction has been opened. It works on
  the transaction's view of the database; \<open>Inl\<close> is a thrown error, \<open>Inr\<close> carries
  the view that \<open>commit\<close> has made durable, with the value returned.
\<close>

definition updatePackagePrice_try ::
  "faults \<Rightarrow> timestamp \<Rightarrow> database \<Rightarrow> int \<Rightarrow> int \<Rightarrow> int option
     \<Rightarrow> string + (database \<times> PriceUpdateResult)" where
  "updatePackagePrice_try faults now db packageId priceCents municipalityId =
     (case faults FindPackage of
        Some e \<Rightarrow> Inl e
      | None \<Rightarrow>
     (case findActivePackage db packageId of
        None \<Rightarrow> Inl (package_not_found packageId)
      | Some packageRecord \<Rightarrow>
     (case requireMunicipality faults db municipalityId of
        Inl e \<Rightarrow> Inl e
      | Inr municipalityRecord \<Rightarrow>
     (if priceCents < 0 then Inl ''Price cannot be negative''
      else
     (case upsertPrice faults db packageId priceCents municipalityId of
        Inl e \<Rightarrow> Inl e
      | Inr (db1, newPrice) \<Rightarrow>
     (case PriceHistory_create faults now db1 packageId (or_undefined municipalityId)
             priceCents ''SEK'' of
        Inl e \<Rightarrow> Inl e
      | Inr db2 \<Rightarrow>
     (case faults Commit of
        Some e \<Rightarrow> Inl e
      | None \<Rightarrow> Inr (db2, updateResult newPrice municipalityRecord))))))))"

text \<open>
  The whole operation: the database after the call and the outcome of the promise
  (\<open>Inl\<close> a rejection with the error's message, \<open>Inr\<close> the resolved value). When the
  transaction cannot be opened there is nothing to roll back; an error thrown inside
  the \<open>try\<close> block is caught and the transaction is rolled back, which leaves the
  database as it was before the call; then the caught message is thrown again, unless
  the rollback itself raised (the transaction is then never committed either).
\<close>

definition updatePackagePrice ::
  "faults \<Rightarrow> timestamp \<Rightarrow> database \<Rightarrow> int \<Rightarrow> int \<Rightarrow> int option
     \<Rightarrow> database \<times> (string + PriceUpdateResult)" where
  "updatePackagePrice faults now db packageId priceCents municipalityId =
     (case faults BeginTransaction of
        Some e \<Rightarrow> (db, Inl e)
      | None \<Rightarrow>
          (case updatePackagePrice_try faults now db packageId priceCents municipalityId of
             Inl e \<Rightarrow>
               (case faults Rollback of
                  Some e' \<Rightarrow> (db, Inl e')
                | None \<Rightarrow> (db, Inl e))
           | Inr (db', result) \<Rightarrow> (db', Inr result)))"

subsection \<open>\<open>getCurrentPackagePrice\<close>\<close>

text \<open>
  \<open>x.municipalityId ? { id: x.municipality.id, ... } : undefined\<close>, for a row \<open>x\<close>
  fetched with its municipality joined.
\<close>

definition municipalityOf :: "database \<Rightarrow> int option \<Rightarrow> string + MunicipalityInfo option" where
  "municipalityOf db municipalityId =
     (if truthy municipalityId then
        (case includeMunicipality db municipalityId of
           None \<Rightarrow> Inl null_municipality
         | Some m \<Rightarrow> Inr (Some (toMunicipalityInfo m)))
      else Inr None)"

definition currentPriceFailure :: "string \<Rightarrow> CurrentPriceResult" where
  "currentPriceFailure e = \<lparr>cpr_success = False, cpr_price = None, cpr_error = Some e\<rparr>"

definition getCurrentPackagePrice_try ::
  "faults \<Rightarrow> database \<Rightarrow> int \<Rightarrow> int option \<Rightarrow> string + CurrentPriceResult" where
  "getCurrentPackagePrice_try faults db packageId municipalityId =
     (case faults FindPackage of
        Some e \<Rightarrow> Inl e
      | None \<Rightarrow>
     (case findActivePackage db packageId of
        None \<Rightarrow> Inr (currentPriceFailure (package_not_found packageId))
      | Some packageRecord \<Rightarrow>
     (case faults FindPrice of
        Some e \<Rightarrow> Inl e
      | None \<Rightarrow>
     (case findActivePrice db packageId (whereMunicipalityId municipalityId) of
        None \<Rightarrow> Inr (currentPriceFailure (no_active_price packageId municipalityId))
      | Some priceRecord \<Rightarrow>
     (case municipalityOf db (price_municipalityId priceRecord) of
        Inl e \<Rightarrow> Inl e
      | Inr municipality \<Rightarrow>
          Inr \<lparr>cpr_success = True,
               cpr_price = Some
                 \<lparr>pi_id = price_id priceRecord,
                  pi_packageId = price_packageId priceRecord,
                  pi_municipalityId = or_undefined (price_municipalityId priceRecord),
                  pi_priceCents = price_priceCents priceRecord,
                  pi_priceDisplay = convertCentsToDisplay (price_priceCents priceRecord),
                  pi_currency_code = price_currency_code priceRecord,
                  cur_package = toPackageInfo packageRecord,
                  cur_municipality = municipality\<rparr>,
               cpr_error = None\<rparr>)))))"

text \<open>The \<open>catch\<close> block turns every thrown error into a returned failure.\<close>

definition getCurrentPackagePrice ::
  "faults \<Rightarrow> database \<Rightarrow> int \<Rightarrow> int option \<Rightarrow> string + CurrentPriceResult" where
  "getCurrentPackagePrice faults db packageId municipalityId =
     (case getCurrentPackagePrice_try faults db packageId municipalityId of
        Inl e \<Rightarrow> Inr (currentPriceFailure e)
      | Inr result \<Rightarrow> Inr result)"

subsection \<open>\<open>getPackagePriceHistory\<close>\<close>

text \<open>
  The municipality check of \<open>getPackagePriceHistory\<close>: \<open>Inr (Some e)\<close> is the early
  return with message \<open>e\<close>, \<open>Inr None\<close> lets the query go on.
\<close>

definition checkMunicipality ::
  "faults \<Rightarrow> database \<Rightarrow> int option \<Rightarrow> string + string option" where
  "checkMunicipality faults db municipalityId =
     (if truthy municipalityId then
        (case faults FindMunicipality of
           Some e \<Rightarrow> Inl e
         | None \<Rightarrow>
             (case findActiveMunicipality db municipalityId of
                None \<Rightarrow> Inr (Some (municipality_not_found municipalityId))
              | Some municipalityRecord \<Rightarrow> Inr None))
      else Inr None)"

text \<open>
  \<open>PriceHistory.findAll({ where: { packageId, createdAt: { [Op.gte]: startDate,
  [Op.lt]: endDate }, municipalityId }, order: [['createdAt', 'DESC']] })\<close>.
  SQL leaves the order of rows with equal \<open>createdAt\<close> open; here they keep their
  table order.
\<close>

definition findHistory ::
  "database \<Rightarrow> int \<Rightarrow> timestamp \<Rightarrow> timestamp \<Rightarrow> int option \<Rightarrow> PriceHistory list" where
  "findHistory db packageId startDate endDate municipalityKey =
     sort_key (\<lambda>h. - hist_createdAt h)
       (filter (\<lambda>h. hist_packageId h = packageId
                  \<and> startDate \<le> hist_createdAt h \<and> hist_createdAt h < endDate
                  \<and> hist_municipalityId h = municipalityKey)
          (price_histories db))"

definition historyEntry :: "database \<Rightarrow> PriceHistory \<Rightarrow> string + PriceHistoryEntry" where
  "historyEntry db record =
     (case municipalityOf db (hist_municipalityId record) of
        Inl e \<Rightarrow> Inl e
      | Inr municipality \<Rightarrow>
          Inr \<lparr>he_id = hist_id record,
               he_packageId = hist_packageId record,
               he_municipalityId = or_undefined (hist_municipalityId record),
               he_priceCents = hist_priceCents record,
               he_priceDisplay = convertCentsToDisplay (hist_priceCents record),
               he_currency_code = hist_currency_code record,
               he_createdAt = hist_createdAt record,
               he_municipality = municipality\<rparr>)"

text \<open>\<open>historyRecords.map(...)\<close>, stopped by the first callback that throws.\<close>

fun historyEntries :: "database \<Rightarrow> PriceHistory list \<Rightarrow> string + PriceHistoryEntry list" where
  "historyEntries db [] = Inr []"
| "historyEntries db (record # records) =
     (case historyEntry db record of
        Inl e \<Rightarrow> Inl e
      | Inr entry \<Rightarrow>
          (case historyEntries db records of
             Inl e \<Rightarrow> Inl e
           | Inr entries \<Rightarrow> Inr (entry # entries)))"

definition priceHistoryFailure :: "string \<Rightarrow> PriceHistoryResult" where
  "priceHistoryFailure e = \<lparr>phr_success = False, phr_history = None, phr_error = Some e\<rparr>"

text \<open>
  \<open>newDate y\<close> is the time value of \<open>new Date(y, 0, 1)\<close>: local midnight on the first
  of January of year \<open>y\<close> for the years the request validation admits (1900 and
  later); JavaScript reads a year from 0 to 99 as \<open>1900 + y\<close>. The platform's calendar
  arithmetic is a parameter of the model.
\<close>

definition getPackagePriceHistory_try ::
  "faults \<Rightarrow> (int \<Rightarrow> timestamp) \<Rightarrow> database \<Rightarrow> int \<Rightarrow> int \<Rightarrow> int option
     \<Rightarrow> string + PriceHistoryResult" where
  "getPackagePriceHistory_try faults newDate db packageId year municipalityId =
     (case faults FindPackage of
        Some e \<Rightarrow> Inl e
      | None \<Rightarrow>
     (case findActivePackage db packageId of
        None \<Rightarrow> Inr (priceHistoryFailure (package_not_found packageId))
      | Some packageRecord \<Rightarrow>
     (case checkMunicipality faults db municipalityId of
        Inl e \<Rightarrow> Inl e
      | Inr (Some e) \<Rightarrow> Inr (priceHistoryFailure e)
      | Inr None \<Rightarrow>
     (let startDate = newDate year;
          endDate = newDate (year + 1)
      in
     (case faults FindHistory of
        Some e \<Rightarrow> Inl e
      | None \<Rightarrow>
     (case historyEntries db
             (findHistory db packageId startDate endDate
                (whereMunicipalityId municipalityId)) of
        Inl e \<Rightarrow> Inl e
      | Inr history \<Rightarrow>
          Inr \<lparr>phr_success = True, phr_history = Some history, phr_error = None\<rparr>))))))"

definition getPackagePriceHistory ::
  "faults \<Rightarrow> (int \<Rightarrow> timestamp) \<Rightarrow> database \<Rightarrow> int \<Rightarrow> int \<Rightarrow> int option
     \<Rightarrow> string + PriceHistoryResult" where
  "getPackagePriceHistory faults newDate db packageId year municipalityId =
     (case getPackagePriceHistory_try faults newDate db packageId year municipalityId of
        Inl e \<Rightarrow> Inr (priceHistoryFailure e)
      | Inr result \<Rightarrow> Inr result)"

section \<open>Notions used to state the properties\<close>


text \<open>The active price rows of a key; a \<open>NULL\<close> municipality is a key value of its own.\<close>

definition activePricesFor :: "database \<Rightarrow> int \<Rightarrow> int option \<Rightarrow> Price list" where
  "activePricesFor db packageId municipalityId =
     filter (\<lambda>r. price_is_active r \<and> price_packageId r = packageId
                \<and> price_municipalityId r = municipalityId) (prices db)"

text \<open>
  What the partial unique index on \<open>(packageId, municipalityId, is_active)\<close> is meant
  to express: no two active rows share a key.
\<close>

definition uniqueActivePrices :: "Price list \<Rightarrow> bool" where
  "uniqueActivePrices ps =
     distinct (map (\<lambda>r. (price_packageId r, price_municipalityId r))
                 (filter price_is_active ps))"

text \<open>The history rows of a key.\<close>

definition historyFor :: "database \<Rightarrow> int \<Rightarrow> int option \<Rightarrow> PriceHistory list" where
  "historyFor db packageId municipalityId =
     filter (\<lambda>h. hist_packageId h = packageId \<and> hist_municipalityId h = municipalityId)
       (price_histories db)"

text \<open>
  The states the service can bring about. \<open>updatePackagePrice\<close> is the only operation
  that writes the \<open>prices\<close> and \<open>price_histories\<close> tables; between two calls the
  catalogue of packages and municipalities may change in any way. A reachable state is
  \<open>run db events\<close> for a database \<open>db\<close> whose \<open>prices\<close> table is empty.
\<close>

datatype event =
  SetPrice faults timestamp int int "int option"
  | CatalogueChange "Package list" "Municipality list"

fun step :: "database \<Rightarrow> event \<Rightarrow> database" where
  "step db (SetPrice faults now packageId priceCents municipalityId) =
     fst (updatePackagePrice faults now db packageId priceCents municipalityId)"
| "step db (CatalogueChange ps ms) = db\<lparr>packages := ps, municipalities := ms\<rparr>"

definition run :: "database \<Rightarrow> event list \<Rightarrow> database" where
  "run db events = foldl step db events"

text \<open>The rows a history query is to return for a key and a window, in table order.\<close>

definition historyInWindow ::
  "database \<Rightarrow> int \<Rightarrow> int option \<Rightarrow> timestamp \<Rightarrow> timestamp \<Rightarrow> PriceHistory list" where
  "historyInWindow db packageId municipalityId startDate endDate =
     filter (\<lambda>h. startDate \<le> hist_createdAt h \<and> hist_createdAt h < endDate)
       (historyFor db packageId municipalityId)"

text \<open>The entry that reports a history row.\<close>

definition entryOf :: "database \<Rightarrow> PriceHistory \<Rightarrow> PriceHistoryEntry" where
  "entryOf db h =
     \<lparr>he_id = hist_id h,
      he_packageId = hist_packageId h,
      he_municipalityId = hist_municipalityId h,
      he_priceCents = hist_priceCents h,
      he_priceDisplay = convertCentsToDisplay (hist_priceCents h),
      he_currency_code = hist_currency_code h,
      he_createdAt = hist_createdAt h,
      he_municipality =
        map_option toMunicipalityInfo (includeMunicipality db (hist_municipalityId h))\<rparr>"

text \<open>
  The time value of midnight, the first of January of year \<open>y\<close>, in UTC
  (ECMAScript's \<open>TimeFromYear\<close>): what \<open>new Date(y, 0, 1)\<close> yields for a year from
  100 on in a process whose time zone is UTC. It instantiates the calendar parameter
  in the examples.
\<close>

definition jan1_utc :: "int \<Rightarrow> timestamp" where
  "jan1_utc y =
     86400000 * (365 * (y - 1970) + (y - 1969) div 4 - (y - 1901) div 100
                 + (y - 1601) div 400)"

section \<open>Example data\<close>

definition seed_db :: database where
  "seed_db =
     \<lparr>packages =
        [\<lparr>pkg_id = 1, pkg_name = ''Basic'', package_code = ''BASIC'', pkg_is_active = True\<rparr>,
         \<lparr>pkg_id = 2, pkg_name = ''Legacy'', package_code = ''LEGACY'', pkg_is_active = False\<rparr>],
      municipalities =
        [\<lparr>mun_id = 1, municipality_name = ''Stockholm'', municipality_code = ''STH'',
          mun_is_active = True\<rparr>,
         \<lparr>mun_id = 2, municipality_name = ''Uppsala'', municipality_code = ''UPP'',
          mun_is_active = False\<rparr>],
      prices = [],
      price_histories = [],
      prices_seq = 0,
      price_histories_seq = 0\<rparr>"

text \<open>The seeded database after \<open>updatePackagePrice(1, 2999)\<close> in June 2025.\<close>

definition basic_price :: Price where
  "basic_price =
     \<lparr>price_id = 1, price_packageId = 1, price_municipalityId = None,
      price_priceCents = 2999, price_is_active = True, price_currency_code = ''SEK''\<rparr>"

definition basic_history :: PriceHistory where
  "basic_history =
     \<lparr>hist_id = 1, hist_packageId = 1, hist_municipalityId = None,
      hist_priceCents = 2999, hist_currency_code = ''SEK'',
      hist_createdAt = 1750000000000\<rparr>"

definition priced_db :: database where
  "priced_db =
     seed_db\<lparr>prices := [basic_price], price_histories := [basic_history],
             prices_seq := 1, price_histories_seq := 1\<rparr>"

definition basic_updated :: PriceUpdateResult where
  "basic_updated =
     \<lparr>pur_success = True,
      pur_price =
        \<lparr>pi_id = 1, pi_packageId = 1, pi_municipalityId = None, pi_priceCents = 2999,
         pi_priceDisplay = nearest_double (2999 / 100), pi_currency_code = ''SEK'',
         upd_municipality = None\<rparr>,
      pur_message = ''Price updated successfully''\<rparr>"

definition basic_current :: CurrentPrice where
  "basic_current =
     \<lparr>pi_id = 1, pi_packageId = 1, pi_municipalityId = None, pi_priceCents = 2999,
      pi_priceDisplay = nearest_double (2999 / 100), pi_currency_code = ''SEK'',
      cur_package = \<lparr>pki_id = 1, pki_name = ''Basic'', pki_package_code = ''BASIC''\<rparr>,
      cur_municipality = None\<rparr>"

definition basic_entry :: PriceHistoryEntry where
  "basic_entry =
     \<lparr>he_id = 1, he_packageId = 1, he_municipalityId = None, he_priceCents = 2999,
      he_priceDisplay = nearest_double (2999 / 100), he_currency_code = ''SEK'',
      he_createdAt = 1750000000000, he_municipality = None\<rparr>"

text \<open>The same database after \<open>updatePackagePrice(1, 2499)\<close> a minute later.\<close>

definition second_history :: PriceHistory where
  "second_history =
     \<lparr>hist_id = 2, hist_packageId = 1, hist_municipalityId = None,
      hist_priceCents = 2499, hist_currency_code = ''SEK'',
      hist_createdAt = 1750000060000\<rparr>"

definition repriced_db :: database where
  "repriced_db =
     priced_db\<lparr>prices := [basic_price\<lparr>price_priceCents := 2499\<rparr>],
               price_histories := [basic_history, second_history],
               price_histories_seq := 2\<rparr>"

definition repriced_updated :: PriceUpdateResult where
  "repriced_updated =
     \<lparr>pur_success = True,
      pur_price =
        \<lparr>pi_id = 1, pi_packageId = 1, pi_municipalityId = None, pi_priceCents = 2499,
         pi_priceDisplay = nearest_double (2499 / 100), pi_currency_code = ''SEK'',
         upd_municipality = None\<rparr>,
      pur_message = ''Price updated successfully''\<rparr>"

text \<open>
  A database in which package 1 also has an active price for Uppsala, a municipality
  that has been deactivated since.
\<close>

definition uppsala_price :: Price where
  "uppsala_price =
     \<lparr>price_id = 2, price_packageId = 1, price_municipalityId = Some 2,
      price_priceCents = 2199, price_is_active = True, price_currency_code = ''SEK''\<rparr>"

definition uppsala_db :: database where
  "uppsala_db = priced_db\<lparr>prices := [basic_price, uppsala_price], prices_seq := 2\<rparr>"

definition uppsala_current :: CurrentPrice where
  "uppsala_current =
     \<lparr>pi_id = 2, pi_packageId = 1, pi_municipalityId = Some 2, pi_priceCents = 2199,
      pi_priceDisplay = nearest_double (2199 / 100), pi_currency_code = ''SEK'',
      cur_package = \<lparr>pki_id = 1, pki_name = ''Basic'', pki_package_code = ''BASIC''\<rparr>,
      cur_municipality =
        Some \<lparr>mi_id = 2, mi_municipality_name = ''Uppsala'', mi_municipality_code = ''UPP''\<rparr>\<rparr>"

text \<open>
  A history table with rows at both ends of 2025 (UTC): one created at the very start
  of the year, one at the very start of 2026, and a row of another key.
\<close>

definition at_new_year :: PriceHistory where
  "at_new_year =
     \<lparr>hist_id = 1, hist_packageId = 1, hist_municipalityId = None, hist_priceCents = 1999,
      hist_currency_code = ''SEK'', hist_createdAt = 1735689600000\<rparr>"

definition in_june :: PriceHistory where
  "in_june =
     \<lparr>hist_id = 2, hist_packageId = 1, hist_municipalityId = None, hist_priceCents = 2499,
      hist_currency_code = ''SEK'', hist_createdAt = 1750000000000\<rparr>"

definition stockholm_in_june :: PriceHistory where
  "stockholm_in_june =
     \<lparr>hist_id = 3, hist_packageId = 1, hist_municipalityId = Some 1, hist_priceCents = 3499,
      hist_currency_code = ''SEK'', hist_createdAt = 1750000060000\<rparr>"

definition in_october :: PriceHistory where
  "in_october =
     \<lparr>hist_id = 4, hist_packageId = 1, hist_municipalityId = None, hist_priceCents = 2999,
      hist_currency_code = ''SEK'', hist_createdAt = 1760000000000\<rparr>"

definition at_next_new_year :: PriceHistory where
  "at_next_new_year =
     \<lparr>hist_id = 5, hist_packageId = 1, hist_municipalityId = None, hist_priceCents = 3199,
      hist_currency_code = ''SEK'', hist_createdAt = 1767225600000\<rparr>"

definition history_db :: database where
  "history_db =
     seed_db\<lparr>price_histories :=
               [at_new_year, in_june, stockholm_in_june, in_october, at_next_new_year],
             price_histories_seq := 5\<rparr>"

section \<open>Properties\<close>

subsection \<open>Primitives\<close>

lemma binade_bounds:
  assumes "0 < x"
  shows "2 powi (binade x) \<le> x \<and> x < 2 powi (binade x + 1)"
proof (cases "1 \<le> x")
  case True
  then have n: "0 < \<lfloor>x\<rfloor>" by linarith
  let ?e = "bitlen \<lfloor>x\<rfloor> - 1"
  from bitlen_bounds [OF n] have lo: "2 ^ nat ?e \<le> \<lfloor>x\<rfloor>" and hi: "\<lfloor>x\<rfloor> < 2 ^ nat (bitlen \<lfloor>x\<rfloor>)"
    by simp_all
  from n have e: "0 \<le> ?e" using bitlen_eq_zero_iff [of "\<lfloor>x\<rfloor>"] bitlen_nonneg [of "\<lfloor>x\<rfloor>"] by linarith
  from lo have "(of_int (2 ^ nat ?e) :: rat) \<le> of_int \<lfloor>x\<rfloor>" by (simp only: of_int_le_iff)
  also have "\<dots> \<le> x" by simp
  finally have a: "2 powi ?e \<le> x" using e by (simp add: power_int_def)
  from hi have "\<lfloor>x\<rfloor> + 1 \<le> 2 ^ nat (bitlen \<lfloor>x\<rfloor>)" by simp
  then have "(of_int (\<lfloor>x\<rfloor> + 1) :: rat) \<le> of_int (2 ^ nat (bitlen \<lfloor>x\<rfloor>))"
    by (simp only: of_int_le_iff)
  moreover have "x < of_int (\<lfloor>x\<rfloor> + 1)" by linarith
  ultimately have "x < of_int (2 ^ nat (bitlen \<lfloor>x\<rfloor>))" by linarith
  then have b: "x < 2 powi (?e + 1)" using e by (simp add: power_int_def)
  from True a b show ?thesis by (simp add: binade_def)
next
  case False
  with assms have y: "1 < 1 / x" by (simp add: field_simps)
  define k where "k = bitlen \<lfloor>1 / x\<rfloor> - 1"
  have "2 powi k \<le> 1 / x \<and> 1 / x < 2 powi (k + 1)"
  proof -
    from y have n: "0 < \<lfloor>1 / x\<rfloor>" by linarith
    from bitlen_bounds [OF n] have lo: "2 ^ nat k \<le> \<lfloor>1 / x\<rfloor>"
      and hi: "\<lfloor>1 / x\<rfloor> < 2 ^ nat (bitlen \<lfloor>1 / x\<rfloor>)"
      by (simp_all add: k_def)
    from n have e: "0 \<le> k"
      using bitlen_eq_zero_iff [of "\<lfloor>1 / x\<rfloor>"] bitlen_nonneg [of "\<lfloor>1 / x\<rfloor>"]
      unfolding k_def by linarith
    from lo have "(of_int (2 ^ nat k) :: rat) \<le> of_int \<lfloor>1 / x\<rfloor>" by (simp only: of_int_le_iff)
    also have "\<dots> \<le> 1 / x" by simp
    finally have a: "2 powi k \<le> 1 / x" using e by (simp add: power_int_def)
    from hi have "\<lfloor>1 / x\<rfloor> + 1 \<le> 2 ^ nat (bitlen \<lfloor>1 / x\<rfloor>)" by simp
    then have "(of_int (\<lfloor>1 / x\<rfloor> + 1) :: rat) \<le> of_int (2 ^ nat (bitlen \<lfloor>1 / x\<rfloor>))"
      by (simp only: of_int_le_iff)
    moreover have "1 / x < of_int (\<lfloor>1 / x\<rfloor> + 1)" by linarith
    ultimately have "1 / x < of_int (2 ^ nat (bitlen \<lfloor>1 / x\<rfloor>))" by linarith
    then have b: "1 / x < 2 powi (k + 1)" using e by (simp add: power_int_def k_def)
    from a b show ?thesis ..
  qed
  then have lo: "2 powi k \<le> 1 / x" and hi: "1 / x < 2 powi (k + 1)" by simp_all
  have pk: "(0::rat) < 2 powi k" and pk1: "(0::rat) < 2 powi (k + 1)" by simp_all
  from lo assms pk have up: "x \<le> 2 powi (- k)"
    by (simp add: power_int_minus field_simps)
  from hi assms pk1 have down: "2 powi (- k - 1) < x"
  proof -
    have "2 powi (- k - 1) = inverse ((2::rat) powi (k + 1))"
      by (simp add: power_int_minus [symmetric])
    also have "\<dots> < x" using hi assms pk1 by (simp add: field_simps)
    finally show ?thesis .
  qed
  have two: "(2::rat) powi (- k + 1) = 2 * 2 powi (- k)" "(2::rat) powi (- k) = 2 * 2 powi (- k - 1)"
    using power_int_add [of "2::rat" "- k" 1] power_int_add [of "2::rat" "- k - 1" 1]
    by simp_all
  show ?thesis
  proof (cases "x = 2 powi (- k)")
    case True
    have "(2::rat) powi (- k) < 2 powi (- k + 1)"
      by (rule power_int_strict_increasing) simp_all
    with True False show ?thesis
      unfolding binade_def Let_def k_def [symmetric]
      by simp
  next
    case ne: False
    with up have "x < 2 powi (- k)" by simp
    with down False ne show ?thesis
      unfolding binade_def Let_def k_def [symmetric]
      by simp
  qed
qed

lemma round_half_even_error: "\<bar>of_int (round_half_even y) - y\<bar> \<le> 1 / 2"
proof -
  have "of_int \<lfloor>y\<rfloor> \<le> y" "y < of_int \<lfloor>y\<rfloor> + 1" by linarith+
  then show ?thesis
    by (auto simp: round_half_even_def Let_def)
qed

lemma nearest_double_error_below:
  assumes "0 < x" and "x < 2 powi n"
  shows "\<bar>nearest_double x - x\<bar> \<le> 2 powi (n - 54)"
proof -
  define u :: rat where "u = 2 powi (binade x - 52)"
  have u: "0 < u" by (simp add: u_def)
  from binade_bounds [OF assms(1)] assms(2) have "(2::rat) powi (binade x) < 2 powi n"
    by linarith
  have "binade x < n"
  proof (rule ccontr)
    assume "\<not> binade x < n"
    then have "n \<le> binade x" by simp
    then have "(2::rat) powi n \<le> 2 powi (binade x)"
      by (intro power_int_increasing) simp_all
    with \<open>(2::rat) powi (binade x) < 2 powi n\<close> show False by simp
  qed
  then have "binade x - 53 \<le> n - 54" by simp
  then have le: "(2::rat) powi (binade x - 53) \<le> 2 powi (n - 54)"
    by (intro power_int_increasing) simp_all
  have half: "1 / 2 * u = 2 powi (binade x - 53)"
    using power_int_add [of "2::rat" "binade x - 53" 1] by (simp add: u_def)
  have "nearest_double x - x = (of_int (round_half_even (x / u)) - x / u) * u"
    using assms u by (simp add: nearest_double_def u_def [symmetric] algebra_simps)
  then have "\<bar>nearest_double x - x\<bar> = \<bar>of_int (round_half_even (x / u)) - x / u\<bar> * u"
    using u by (simp add: abs_mult)
  also have "\<dots> \<le> 1 / 2 * u"
    using round_half_even_error [of "x / u"] u by (intro mult_right_mono) simp_all
  also have "\<dots> \<le> 2 powi (n - 54)" using le by (simp only: half)
  finally show ?thesis .
qed

lemma Math_round_near:
  assumes "\<bar>r - of_int c\<bar> < 1 / 2"
  shows "Math_round r = c"
  unfolding Math_round_def using assms by linarith

lemma round_trip_error:
  assumes "0 < c" and "c < 100 * 2 ^ 45"
  shows "\<bar>nearest_double (nearest_double (of_int c / 100) * 100) - of_int c\<bar> < 1 / 2"
proof -
  define x :: rat where "x = of_int c / 100"
  define q where "q = nearest_double x"
  define y where "y = q * 100"
  define r where "r = nearest_double y"
  have x: "0 < x" using assms by (simp add: x_def)
  have cx: "of_int c = x * 100" by (simp add: x_def)
  have cb: "(of_int c :: rat) \<le> 3518437208883199"
  proof -
    from assms(2) have "c \<le> 3518437208883199" by simp
    then have "(of_int c :: rat) \<le> of_int 3518437208883199" by (simp only: of_int_le_iff)
    then show ?thesis by simp
  qed
  then have "x < 2 powi 45" by (simp add: x_def)
  from nearest_double_error_below [OF x this] have q: "\<bar>q - x\<bar> \<le> 1 / 512"
    by (simp add: q_def power_int_minus)
  have "(1::rat) \<le> of_int c" using assms(1) by simp
  then have "1 / 100 \<le> x" by (simp add: x_def)
  with q have "0 < q" by linarith
  then have ypos: "0 < y" by (simp add: y_def)
  have "y - of_int c = (q - x) * 100" by (simp add: y_def cx algebra_simps)
  then have "\<bar>y - of_int c\<bar> = \<bar>(q - x) * 100\<bar>" by (simp only:)
  also have "\<dots> = \<bar>q - x\<bar> * 100" unfolding abs_mult by simp
  also have "\<dots> \<le> 1 / 512 * 100" using q by (intro mult_right_mono) simp_all
  finally have yc: "\<bar>y - of_int c\<bar> \<le> 100 / 512" by simp
  with cb have "y < 4503599627370496" by linarith
  then have "y < 2 powi 52" by simp
  from nearest_double_error_below [OF ypos this] have ry: "\<bar>r - y\<bar> \<le> 1 / 4"
    by (simp add: r_def power_int_minus)
  from yc ry have "\<bar>r - of_int c\<bar> < 1 / 2" by linarith
  then show ?thesis by (simp add: r_def y_def q_def x_def)
qed

text \<open>
  The two amounts between \<open>100 * 2^45\<close> and the first one at which the display is a
  cent off.
\<close>

lemma convertCentsToDisplay_edge:
  "convertCentsToDisplay 3518437208883200 = nearest_double (3518437208883200 / 100)"
  "convertCentsToDisplay 3518437208883201 = nearest_double (3518437208883201 / 100)"
  by code_simp+

lemma convertCentsToDisplay_small:
  assumes "0 \<le> c" and "c < 3518437208883202"
  shows "convertCentsToDisplay c = nearest_double (of_int c / 100)"
proof -
  from assms consider "c = 0" | "0 < c \<and> c < 100 * 2 ^ 45"
    | "c = 3518437208883200" | "c = 3518437208883201"
    by (simp add: less_le) linarith
  then show ?thesis
  proof cases
    case 1
    have "Math_round 0 = 0" by (rule Math_round_near) simp
    with 1 show ?thesis
      by (simp add: convertCentsToDisplay_def nearest_double_def)
  next
    case 2
    then have "0 < c" and "c < 100 * 2 ^ 45" by simp_all
    from Math_round_near [OF round_trip_error [OF this]]
    show ?thesis by (simp add: convertCentsToDisplay_def)
  next
    case 3
    then show ?thesis by (simp add: convertCentsToDisplay_edge)
  next
    case 4
    then show ?thesis by (simp add: convertCentsToDisplay_edge)
  qed
qed

lemmas service_defs =
  updatePackagePrice_def updatePackagePrice_try_def requireMunicipality_def upsertPrice_def
  Price_update_def Price_create_def PriceHistory_create_def updateResult_def
  findActivePackage_def findActiveMunicipality_def findActivePrice_def
  whereMunicipalityId_def or_undefined_def truthy_def next_rowid_def no_faults_def
  toMunicipalityInfo_def toPackageInfo_def Let_def
  getCurrentPackagePrice_def getCurrentPackagePrice_try_def municipalityOf_def
  includeMunicipality_def currentPriceFailure_def
  getPackagePriceHistory_def getPackagePriceHistory_try_def checkMunicipality_def
  findHistory_def historyEntry_def priceHistoryFailure_def sort_key_def
  convertCentsToDisplay_small

lemmas example_defs =
  seed_db_def basic_price_def basic_history_def priced_db_def basic_updated_def
  basic_current_def basic_entry_def second_history_def repriced_db_def
  repriced_updated_def uppsala_price_def uppsala_db_def uppsala_current_def
  at_new_year_def in_june_def stockholm_in_june_def in_october_def at_next_new_year_def
  history_db_def

lemma whereMunicipalityId_or_undefined: "whereMunicipalityId m = or_undefined m"
  by (simp add: whereMunicipalityId_def or_undefined_def)

subsection \<open>The steps of a successful \<open>updatePackagePrice\<close>\<close>

lemma updatePackagePrice_success:
  assumes "updatePackagePrice faults now db p c m = (db', Inr r)"
  shows "\<exists>pkg mun db1 newPrice.
           findActivePackage db p = Some pkg
         \<and> requireMunicipality faults db m = Inr mun
         \<and> 0 \<le> c
         \<and> upsertPrice faults db p c m = Inr (db1, newPrice)
         \<and> PriceHistory_create faults now db1 p (or_undefined m) c ''SEK'' = Inr db'
         \<and> r = updateResult newPrice mun"
  using assms
  by (auto simp: updatePackagePrice_def updatePackagePrice_try_def
           split: option.splits sum.splits if_splits prod.splits)

lemma upsertPrice_cases:
  assumes "upsertPrice faults db p c m = Inr (db1, newPrice)"
  shows "(\<exists>existing. findActivePrice db p (whereMunicipalityId m) = Some existing
            \<and> newPrice = existing\<lparr>price_priceCents := c, price_currency_code := ''SEK''\<rparr>
            \<and> db1 = db\<lparr>prices := map (\<lambda>r. if price_id r = price_id existing
                               then r\<lparr>price_priceCents := c, price_currency_code := ''SEK''\<rparr>
                               else r) (prices db)\<rparr>)
       \<or> (findActivePrice db p (whereMunicipalityId m) = None
            \<and> newPrice = \<lparr>price_id = next_rowid (prices_seq db) (map price_id (prices db)),
                  price_packageId = p, price_municipalityId = or_undefined m,
                  price_priceCents = c, price_is_active = True, price_currency_code = ''SEK''\<rparr>
            \<and> db1 = db\<lparr>prices := prices db @ [newPrice], prices_seq := price_id newPrice\<rparr>)"
  using assms
  by (auto simp: upsertPrice_def Price_update_def Price_create_def Let_def
           split: option.splits)

lemma PriceHistory_create_Inr:
  assumes "PriceHistory_create faults now db p mk c cur = Inr db'"
  shows "db' = db\<lparr>price_histories := price_histories db @
                 [\<lparr>hist_id = next_rowid (price_histories_seq db) (map hist_id (price_histories db)),
                  hist_packageId = p, hist_municipalityId = mk, hist_priceCents = c,
                  hist_currency_code = cur, hist_createdAt = now\<rparr>],
               price_histories_seq := next_rowid (price_histories_seq db) (map hist_id (price_histories db))\<rparr>"
  using assms
  by (auto simp: PriceHistory_create_def Let_def split: option.splits)

lemma upsertPrice_priceCents:
  "upsertPrice faults db p c m = Inr (db1, newPrice) \<Longrightarrow> price_priceCents newPrice = c"
  by (drule upsertPrice_cases) auto

subsection \<open>Display conversion\<close>






text \<open>The example calls, evaluated.\<close>

lemma seed_setPrice:
  "updatePackagePrice no_faults 1750000000000 seed_db 1 2999 None = (priced_db, Inr basic_updated)"
  by (simp add: service_defs example_defs)

lemma priced_current:
  "getCurrentPackagePrice no_faults priced_db 1 None =
     Inr \<lparr>cpr_success = True, cpr_price = Some basic_current, cpr_error = None\<rparr>"
  by (simp add: service_defs example_defs)









subsection \<open>Atomicity of \<open>updatePackagePrice\<close>\<close>

lemma updatePackagePrice_failure_unchanged:
  "updatePackagePrice faults now db p c m = (db', Inl e) \<Longrightarrow> db' = db"
  by (auto simp: updatePackagePrice_def split: option.splits sum.splits prod.splits)

lemma updatePackagePrice_fails:
  assumes "findActivePackage db p = None
     \<or> (truthy m \<and> findActiveMunicipality db m = None)
     \<or> c < 0
     \<or> faults BeginTransaction \<noteq> None
     \<or> faults FindPackage \<noteq> None
     \<or> (truthy m \<and> faults FindMunicipality \<noteq> None)
     \<or> faults FindPrice \<noteq> None
     \<or> (findActivePrice db p (whereMunicipalityId m) \<noteq> None \<and> faults UpdatePrice \<noteq> None)
     \<or> (findActivePrice db p (whereMunicipalityId m) = None \<and> faults CreatePrice \<noteq> None)
     \<or> faults CreateHistory \<noteq> None
     \<or> faults Commit \<noteq> None"
  shows "\<exists>e. updatePackagePrice faults now db p c m = (db, Inl e)"
proof (cases "snd (updatePackagePrice faults now db p c m)")
  case (Inl e)
  then have "updatePackagePrice faults now db p c m = (db, Inl e)"
    using updatePackagePrice_failure_unchanged [of faults now db p c m _ e]
    by (cases "updatePackagePrice faults now db p c m") simp
  then show ?thesis by blast
next
  case (Inr r)
  then obtain db' where ok: "updatePackagePrice faults now db p c m = (db', Inr r)"
    by (cases "updatePackagePrice faults now db p c m") simp
  from updatePackagePrice_success [OF ok] obtain pkg mun db1 newPrice where
    s: "findActivePackage db p = Some pkg" "requireMunicipality faults db m = Inr mun"
       "0 \<le> c" "upsertPrice faults db p c m = Inr (db1, newPrice)"
       "PriceHistory_create faults now db1 p (or_undefined m) c ''SEK'' = Inr db'"
    by blast
  from ok have b: "faults BeginTransaction = None" "faults FindPackage = None" "faults Commit = None"
    by (auto simp: updatePackagePrice_def updatePackagePrice_try_def
          split: option.splits sum.splits prod.splits if_splits)
  from s(2) have m: "truthy m \<longrightarrow> faults FindMunicipality = None \<and> findActiveMunicipality db m \<noteq> None"
    by (auto simp: requireMunicipality_def split: option.splits if_splits)
  from s(4) have u: "faults FindPrice = None"
     "findActivePrice db p (whereMunicipalityId m) \<noteq> None \<longrightarrow> faults UpdatePrice = None"
     "findActivePrice db p (whereMunicipalityId m) = None \<longrightarrow> faults CreatePrice = None"
    by (auto simp: upsertPrice_def Price_update_def Price_create_def Let_def split: option.splits)
  from s(5) have h: "faults CreateHistory = None"
    by (auto simp: PriceHistory_create_def Let_def split: option.splits)
  from assms s(1,3) b m u h show ?thesis by auto
qed

lemma show_999999: "show_int 999999 = ''999999''"
  by (simp add: show_int_def show_nat.simps digit_char_def)

lemma priced_invalid_municipality:
  "updatePackagePrice no_faults 1750000000001 priced_db 1 1000 (Some 999999) =
     (priced_db, Inl ''Municipality with ID 999999 not found or inactive'')"
  by (simp add: service_defs example_defs municipality_not_found_def show_optional_def show_999999)

text \<open>
  Claim C2. \<open>updatePackagePrice\<close> is atomic. Whenever the call is rejected, the database
  after the call is the database before it: no price row is created or changed and no
  history row is kept. Every cause the specification lists does reject the call: the
  package or the municipality missing or inactive, a negative amount, and an error
  raised by any database call the operation reaches (opening the transaction, the
  look-ups, the update or the insert of the price row, the insert of the history row,
  the commit). The example is the call for municipality 999999.
\<close>

theorem setPrice_atomic:
  "(updatePackagePrice faults now db packageId priceCents municipalityId = (db', Inl e)
      \<longrightarrow> db' = db)
   \<and> (findActivePackage db packageId = None
       \<or> (truthy municipalityId \<and> findActiveMunicipality db municipalityId = None)
       \<or> priceCents < 0
       \<or> faults BeginTransaction \<noteq> None
       \<or> faults FindPackage \<noteq> None
       \<or> (truthy municipalityId \<and> faults FindMunicipality \<noteq> None)
       \<or> faults FindPrice \<noteq> None
       \<or> (findActivePrice db packageId (whereMunicipalityId municipalityId) \<noteq> None
            \<and> faults UpdatePrice \<noteq> None)
       \<or> (findActivePrice db packageId (whereMunicipalityId municipalityId) = None
            \<and> faults CreatePrice \<noteq> None)
       \<or> faults CreateHistory \<noteq> None
       \<or> faults Commit \<noteq> None
      \<longrightarrow> (\<exists>e'. updatePackagePrice faults now db packageId priceCents municipalityId
                   = (db, Inl e')))"
  using updatePackagePrice_failure_unchanged [of faults now db packageId priceCents municipalityId db' e]
    updatePackagePrice_fails [of db packageId municipalityId priceCents faults now]
  by blast

theorem setPrice_atomic_witness:
  "truthy (Some 999999) \<and> findActiveMunicipality priced_db (Some 999999) = None
   \<and> updatePackagePrice no_faults 1750000000001 priced_db 1 1000 (Some 999999) =
       (priced_db, Inl ''Municipality with ID 999999 not found or inactive'')
   \<and> prices priced_db = [basic_price] \<and> price_histories priced_db = [basic_history]"
  using setPrice_atomic [of no_faults 1750000000001 priced_db 1 1000 "Some 999999" priced_db
      "''Municipality with ID 999999 not found or inactive''"]
    priced_invalid_municipality
  by (simp add: truthy_def findActiveMunicipality_def example_defs)

subsection \<open>History rows written by \<open>updatePackagePrice\<close>\<close>

lemma upsertPrice_histories:
  "upsertPrice faults db p c m = Inr (db1, newPrice)
     \<Longrightarrow> price_histories db1 = price_histories db
       \<and> price_histories_seq db1 = price_histories_seq db"
  by (drule upsertPrice_cases) auto

lemma updatePackagePrice_histories:
  assumes "updatePackagePrice faults now db p c m = (db', Inr r)"
  shows "price_histories db' = price_histories db @
           [\<lparr>hist_id = next_rowid (price_histories_seq db) (map hist_id (price_histories db)),
             hist_packageId = p, hist_municipalityId = or_undefined m, hist_priceCents = c,
             hist_currency_code = ''SEK'', hist_createdAt = now\<rparr>]"
proof -
  from updatePackagePrice_success [OF assms] obtain db1 newPrice where
    u: "upsertPrice faults db p c m = Inr (db1, newPrice)"
    and h: "PriceHistory_create faults now db1 p (or_undefined m) c ''SEK'' = Inr db'"
    by blast
  from PriceHistory_create_Inr [OF h] upsertPrice_histories [OF u]
  show ?thesis by simp
qed



subsection \<open>Errors raised and returned\<close>

lemma municipality_not_found_neq:
  "municipality_not_found m \<noteq> package_not_found p"
  "municipality_not_found m \<noteq> ''Price cannot be negative''"
  "municipality_not_found m \<noteq> no_active_price p m'"
  "municipality_not_found m \<noteq> null_municipality"
  by (simp_all add: package_not_found_def municipality_not_found_def no_active_price_def
        null_municipality_def)

lemma requireMunicipality_Inl:
  "requireMunicipality faults db m = Inl e
     \<Longrightarrow> truthy m \<and> (faults FindMunicipality = Some e
                      \<or> (findActiveMunicipality db m = None \<and> e = municipality_not_found m))"
  by (auto simp: requireMunicipality_def split: option.splits if_splits)

lemma upsertPrice_Inl:
  "upsertPrice faults db p c m = Inl e \<Longrightarrow> \<exists>call. faults call = Some e"
  by (auto simp: upsertPrice_def Price_update_def Price_create_def Let_def split: option.splits)

lemma PriceHistory_create_Inl:
  "PriceHistory_create faults now db p mk c cur = Inl e \<Longrightarrow> \<exists>call. faults call = Some e"
  by (auto simp: PriceHistory_create_def Let_def split: option.splits)

lemma updatePackagePrice_try_Inl:
  assumes "updatePackagePrice_try faults now db p c m = Inl e"
  shows "(\<exists>call. faults call = Some e)
       \<or> (findActivePackage db p = None \<and> e = package_not_found p)
       \<or> (truthy m \<and> findActiveMunicipality db m = None \<and> e = municipality_not_found m)
       \<or> (c < 0 \<and> e = ''Price cannot be negative'')"
proof (cases "faults FindPackage")
  case (Some x)
  with assms show ?thesis by (auto simp: updatePackagePrice_try_def)
next
  case fp: None
  show ?thesis
  proof (cases "findActivePackage db p")
    case None
    with fp assms show ?thesis by (simp add: updatePackagePrice_try_def)
  next
    case pk: (Some pkg)
    show ?thesis
    proof (cases "requireMunicipality faults db m")
      case (Inl x)
      with fp pk assms have "x = e" by (simp add: updatePackagePrice_try_def)
      with requireMunicipality_Inl [OF Inl] show ?thesis by blast
    next
      case rm: (Inr mun)
      show ?thesis
      proof (cases "c < 0")
        case True
        with fp pk rm assms show ?thesis by (simp add: updatePackagePrice_try_def)
      next
        case nonneg: False
        show ?thesis
        proof (cases "upsertPrice faults db p c m")
          case (Inl x)
          with fp pk rm nonneg assms have "x = e" by (simp add: updatePackagePrice_try_def)
          with upsertPrice_Inl [OF Inl] show ?thesis by blast
        next
          case (Inr u)
          obtain db1 newPrice where u: "u = (db1, newPrice)" by (cases u)
          show ?thesis
          proof (cases "PriceHistory_create faults now db1 p (or_undefined m) c ''SEK''")
            case (Inl x)
            with fp pk rm nonneg Inr u assms have "x = e"
              by (simp add: updatePackagePrice_try_def)
            with PriceHistory_create_Inl [OF Inl] show ?thesis by blast
          next
            case h: (Inr db2)
            with fp pk rm nonneg Inr u assms have "faults Commit = Some e"
              by (simp add: updatePackagePrice_try_def split: option.splits)
            then show ?thesis by blast
          qed
        qed
      qed
    qed
  qed
qed

lemma updatePackagePrice_Inl:
  assumes "snd (updatePackagePrice faults now db p c m) = Inl e"
  shows "(\<exists>call. faults call = Some e)
       \<or> (findActivePackage db p = None \<and> e = package_not_found p)
       \<or> (truthy m \<and> findActiveMunicipality db m = None \<and> e = municipality_not_found m)
       \<or> (c < 0 \<and> e = ''Price cannot be negative'')"
proof (cases "faults BeginTransaction")
  case (Some x)
  with assms show ?thesis by (auto simp: updatePackagePrice_def)
next
  case None
  show ?thesis
  proof (cases "faults Rollback")
    case (Some x)
    with None assms have "x = e"
      by (auto simp: updatePackagePrice_def split: sum.splits prod.splits)
    with Some show ?thesis by blast
  next
    case rb: None
    with None assms have "updatePackagePrice_try faults now db p c m = Inl e"
      by (auto simp: updatePackagePrice_def split: sum.splits prod.splits)
    then show ?thesis by (rule updatePackagePrice_try_Inl)
  qed
qed

lemma historyEntries_Inl:
  "historyEntries db rows = Inl e \<Longrightarrow> e = null_municipality"
  by (induction rows)
    (auto simp: historyEntry_def municipalityOf_def split: sum.splits option.splits if_splits)

lemma getCurrentPackagePrice_try_Inl:
  "getCurrentPackagePrice_try faults db p m = Inl e
     \<Longrightarrow> (\<exists>call. faults call = Some e) \<or> e = null_municipality"
  by (auto simp: getCurrentPackagePrice_try_def municipalityOf_def
        split: option.splits sum.splits if_splits)

lemma checkMunicipality_cases:
  "checkMunicipality faults db m = Inl e \<Longrightarrow> truthy m \<and> faults FindMunicipality = Some e"
  "checkMunicipality faults db m = Inr (Some e)
     \<Longrightarrow> truthy m \<and> findActiveMunicipality db m = None \<and> e = municipality_not_found m"
  by (auto simp: checkMunicipality_def split: option.splits if_splits)

lemma getPackagePriceHistory_try_Inl:
  "getPackagePriceHistory_try faults newDate db p y m = Inl e
     \<Longrightarrow> (\<exists>call. faults call = Some e) \<or> e = null_municipality"
  by (auto simp: getPackagePriceHistory_try_def Let_def
        dest: historyEntries_Inl checkMunicipality_cases(1)
        split: option.splits sum.splits)

lemma getCurrentPackagePrice_try_error:
  "getCurrentPackagePrice_try faults db p m = Inr r \<Longrightarrow> cpr_error r = Some e
     \<Longrightarrow> (findActivePackage db p = None \<and> e = package_not_found p)
       \<or> (findActivePrice db p (whereMunicipalityId m) = None \<and> e = no_active_price p m)"
  by (auto simp: getCurrentPackagePrice_try_def currentPriceFailure_def
        split: option.splits sum.splits)

lemma getCurrentPackagePrice_error:
  assumes "getCurrentPackagePrice faults db p m = Inr r" and "cpr_error r = Some e"
  shows "(\<exists>call. faults call = Some e) \<or> e = null_municipality
       \<or> (findActivePackage db p = None \<and> e = package_not_found p)
       \<or> (findActivePrice db p (whereMunicipalityId m) = None \<and> e = no_active_price p m)"
proof (cases "getCurrentPackagePrice_try faults db p m")
  case (Inl x)
  with assms have "x = e" by (auto simp: getCurrentPackagePrice_def currentPriceFailure_def)
  with getCurrentPackagePrice_try_Inl [OF Inl] show ?thesis by blast
next
  case (Inr x)
  with assms have "x = r" by (simp add: getCurrentPackagePrice_def)
  with getCurrentPackagePrice_try_error [OF Inr [unfolded this]] assms(2) Inr
  show ?thesis by blast
qed

lemma getPackagePriceHistory_try_error:
  "getPackagePriceHistory_try faults newDate db p y m = Inr r \<Longrightarrow> phr_error r = Some e
     \<Longrightarrow> (findActivePackage db p = None \<and> e = package_not_found p)
       \<or> (truthy m \<and> findActiveMunicipality db m = None \<and> e = municipality_not_found m)"
  by (auto simp: getPackagePriceHistory_try_def priceHistoryFailure_def Let_def
        dest: checkMunicipality_cases(2)
        split: option.splits sum.splits)

lemma getPackagePriceHistory_error:
  assumes "getPackagePriceHistory faults newDate db p y m = Inr r" and "phr_error r = Some e"
  shows "(\<exists>call. faults call = Some e) \<or> e = null_municipality
       \<or> (findActivePackage db p = None \<and> e = package_not_found p)
       \<or> (truthy m \<and> findActiveMunicipality db m = None \<and> e = municipality_not_found m)"
proof (cases "getPackagePriceHistory_try faults newDate db p y m")
  case (Inl x)
  with assms have "x = e" by (auto simp: getPackagePriceHistory_def priceHistoryFailure_def)
  with getPackagePriceHistory_try_Inl [OF Inl] show ?thesis by blast
next
  case (Inr x)
  with assms have "x = r" by (simp add: getPackagePriceHistory_def)
  with getPackagePriceHistory_try_error [OF Inr [unfolded this]] assms(2) Inr
  show ?thesis by blast
qed

subsection \<open>The municipality identifier 0\<close>

lemma zero_falsy:
  "whereMunicipalityId (Some 0) = whereMunicipalityId None"
  "or_undefined (Some 0) = or_undefined None"
  "requireMunicipality faults db (Some 0) = requireMunicipality faults db None"
  "checkMunicipality faults db (Some 0) = checkMunicipality faults db None"
  "no_active_price p (Some 0) = no_active_price p None"
  by (simp_all add: whereMunicipalityId_def or_undefined_def requireMunicipality_def
        checkMunicipality_def no_active_price_def truthy_def)

lemma upsertPrice_zero:
  "upsertPrice faults db p c (Some 0) = upsertPrice faults db p c None"
  unfolding upsertPrice_def zero_falsy ..

lemma updatePackagePrice_try_zero:
  "updatePackagePrice_try faults now db p c (Some 0) = updatePackagePrice_try faults now db p c None"
  unfolding updatePackagePrice_try_def zero_falsy upsertPrice_zero ..

lemma getCurrentPackagePrice_try_zero:
  "getCurrentPackagePrice_try faults db p (Some 0) = getCurrentPackagePrice_try faults db p None"
  unfolding getCurrentPackagePrice_try_def zero_falsy ..

lemma getPackagePriceHistory_try_zero:
  "getPackagePriceHistory_try faults newDate db p y (Some 0)
     = getPackagePriceHistory_try faults newDate db p y None"
  unfolding getPackagePriceHistory_try_def zero_falsy ..

lemma priced_current_zero:
  "getCurrentPackagePrice no_faults priced_db 1 (Some 0) =
     Inr \<lparr>cpr_success = True, cpr_price = Some basic_current, cpr_error = None\<rparr>"
  by (simp add: service_defs example_defs)

lemma priced_history_zero:
  "getPackagePriceHistory no_faults jan1_utc priced_db 1 2025 (Some 0) =
     Inr \<lparr>phr_success = True, phr_history = Some [basic_entry], phr_error = None\<rparr>"
  by (simp add: service_defs example_defs jan1_utc_def)

lemma seed_setPrice_zero:
  "updatePackagePrice no_faults 1750000000000 seed_db 1 2999 (Some 0) = (priced_db, Inr basic_updated)"
  by (simp add: service_defs example_defs)

text \<open>
  Claim C9. A municipality identifier of 0 cannot be told from an omitted one: the three
  operations return for \<open>Some 0\<close> what they return for \<open>None\<close>. The municipality check is
  skipped, the where clauses and the rows written carry \<open>NULL\<close>, and, unless the
  database itself raises an error with that text, no
  \<open>Municipality with ID 0 not found or inactive\<close> error is thrown or returned.
\<close>

theorem zero_municipality_is_omitted:
  "updatePackagePrice faults now db packageId priceCents (Some 0)
     = updatePackagePrice faults now db packageId priceCents None
   \<and> getCurrentPackagePrice faults db packageId (Some 0)
     = getCurrentPackagePrice faults db packageId None
   \<and> getPackagePriceHistory faults newDate db packageId year (Some 0)
     = getPackagePriceHistory faults newDate db packageId year None
   \<and> requireMunicipality faults db (Some 0) = Inr None
   \<and> checkMunicipality faults db (Some 0) = Inr None
   \<and> whereMunicipalityId (Some 0) = None
   \<and> or_undefined (Some 0) = None
   \<and> ((\<forall>call. faults call \<noteq> Some (municipality_not_found (Some 0)))
        \<longrightarrow> snd (updatePackagePrice faults now db packageId priceCents (Some 0))
              \<noteq> Inl (municipality_not_found (Some 0))
          \<and> (\<forall>r. getCurrentPackagePrice faults db packageId (Some 0) = Inr r
                \<longrightarrow> cpr_error r \<noteq> Some (municipality_not_found (Some 0)))
          \<and> (\<forall>r. getPackagePriceHistory faults newDate db packageId year (Some 0) = Inr r
                \<longrightarrow> phr_error r \<noteq> Some (municipality_not_found (Some 0))))"
proof (intro conjI impI allI)
  show "updatePackagePrice faults now db packageId priceCents (Some 0)
     = updatePackagePrice faults now db packageId priceCents None"
    unfolding updatePackagePrice_def updatePackagePrice_try_zero ..
  show "getCurrentPackagePrice faults db packageId (Some 0)
     = getCurrentPackagePrice faults db packageId None"
    unfolding getCurrentPackagePrice_def getCurrentPackagePrice_try_zero ..
  show "getPackagePriceHistory faults newDate db packageId year (Some 0)
     = getPackagePriceHistory faults newDate db packageId year None"
    unfolding getPackagePriceHistory_def getPackagePriceHistory_try_zero ..
  show "requireMunicipality faults db (Some 0) = Inr None"
    by (simp add: requireMunicipality_def truthy_def)
  show "checkMunicipality faults db (Some 0) = Inr None"
    by (simp add: checkMunicipality_def truthy_def)
  show "whereMunicipalityId (Some 0) = None"
    by (simp add: whereMunicipalityId_def truthy_def)
  show "or_undefined (Some 0) = None"
    by (simp add: or_undefined_def truthy_def)
next
  assume nf: "\<forall>call. faults call \<noteq> Some (municipality_not_found (Some 0))"
  show "snd (updatePackagePrice faults now db packageId priceCents (Some 0))
          \<noteq> Inl (municipality_not_found (Some 0))"
  proof
    assume "snd (updatePackagePrice faults now db packageId priceCents (Some 0))
              = Inl (municipality_not_found (Some 0))"
    from updatePackagePrice_Inl [OF this] nf
    show False by (auto simp: truthy_def municipality_not_found_neq)
  qed
next
  fix r
  assume nf: "\<forall>call. faults call \<noteq> Some (municipality_not_found (Some 0))"
    and r: "getCurrentPackagePrice faults db packageId (Some 0) = Inr r"
  show "cpr_error r \<noteq> Some (municipality_not_found (Some 0))"
  proof
    assume "cpr_error r = Some (municipality_not_found (Some 0))"
    from getCurrentPackagePrice_error [OF r this] nf
    show False by (auto simp: municipality_not_found_neq)
  qed
next
  fix r
  assume nf: "\<forall>call. faults call \<noteq> Some (municipality_not_found (Some 0))"
    and r: "getPackagePriceHistory faults newDate db packageId year (Some 0) = Inr r"
  show "phr_error r \<noteq> Some (municipality_not_found (Some 0))"
  proof
    assume "phr_error r = Some (municipality_not_found (Some 0))"
    from getPackagePriceHistory_error [OF r this] nf
    show False by (auto simp: truthy_def municipality_not_found_neq)
  qed
qed

theorem zero_municipality_is_omitted_witness:
  "(\<forall>call. no_faults call \<noteq> Some (municipality_not_found (Some 0)))
   \<and> updatePackagePrice no_faults 1750000000000 seed_db 1 2999 (Some 0)
       = updatePackagePrice no_faults 1750000000000 seed_db 1 2999 None
   \<and> updatePackagePrice no_faults 1750000000000 seed_db 1 2999 (Some 0)
       = (priced_db, Inr basic_updated)
   \<and> getCurrentPackagePrice no_faults priced_db 1 (Some 0) =
       Inr \<lparr>cpr_success = True, cpr_price = Some basic_current, cpr_error = None\<rparr>
   \<and> getPackagePriceHistory no_faults jan1_utc priced_db 1 2025 (Some 0) =
       Inr \<lparr>phr_success = True, phr_history = Some [basic_entry], phr_error = None\<rparr>"
  using zero_municipality_is_omitted [of no_faults 1750000000000 seed_db 1 2999 jan1_utc 2025]
    seed_setPrice_zero priced_current_zero priced_history_zero
  by (simp add: no_faults_def)

subsection \<open>One active price per key\<close>

lemma keys_of_updated_rows:
  assumes "\<And>x. key (f x) = key x" and "\<And>x. act (f x) = act x"
  shows "map key (filter act (map f xs)) = map key (filter act xs)"
  by (induction xs) (simp_all add: assms)

lemma upsertPrice_unique:
  assumes u: "upsertPrice faults db p c m = Inr (db1, newPrice)"
    and inv: "uniqueActivePrices (prices db)"
  shows "uniqueActivePrices (prices db1)"
  using upsertPrice_cases [OF u]
proof (elim disjE exE conjE)
  fix existing
  assume db1: "db1 = db\<lparr>prices := map (\<lambda>r. if price_id r = price_id existing
                 then r\<lparr>price_priceCents := c, price_currency_code := ''SEK''\<rparr>
                 else r) (prices db)\<rparr>"
  have "map (\<lambda>r. (price_packageId r, price_municipalityId r))
          (filter price_is_active
             (map (\<lambda>r. if price_id r = price_id existing
                 then r\<lparr>price_priceCents := c, price_currency_code := ''SEK''\<rparr>
                 else r) (prices db)))
      = map (\<lambda>r. (price_packageId r, price_municipalityId r))
          (filter price_is_active (prices db))"
    by (rule keys_of_updated_rows) simp_all
  with inv show ?thesis
    by (simp add: db1 uniqueActivePrices_def)
next
  assume none: "findActivePrice db p (whereMunicipalityId m) = None"
    and np: "newPrice = \<lparr>price_id = next_rowid (prices_seq db) (map price_id (prices db)),
                  price_packageId = p, price_municipalityId = or_undefined m,
                  price_priceCents = c, price_is_active = True, price_currency_code = ''SEK''\<rparr>"
    and db1: "db1 = db\<lparr>prices := prices db @ [newPrice], prices_seq := price_id newPrice\<rparr>"
  from none have "(p, or_undefined m)
      \<notin> set (map (\<lambda>r. (price_packageId r, price_municipalityId r))
                (filter price_is_active (prices db)))"
    by (auto simp: findActivePrice_def find_None_iff whereMunicipalityId_or_undefined)
  with inv show ?thesis
    by (simp add: db1 np uniqueActivePrices_def)
qed

lemma PriceHistory_create_prices:
  "PriceHistory_create faults now db p mk c cur = Inr db' \<Longrightarrow> prices db' = prices db"
  by (drule PriceHistory_create_Inr) simp

lemma updatePackagePrice_preserves_unique:
  assumes inv: "uniqueActivePrices (prices db)"
  shows "uniqueActivePrices (prices (fst (updatePackagePrice faults now db p c m)))"
proof (cases "snd (updatePackagePrice faults now db p c m)")
  case (Inl e)
  then have "fst (updatePackagePrice faults now db p c m) = db"
    using updatePackagePrice_failure_unchanged [of faults now db p c m _ e]
    by (cases "updatePackagePrice faults now db p c m") simp
  with inv show ?thesis by simp
next
  case (Inr r)
  then obtain db' where ok: "updatePackagePrice faults now db p c m = (db', Inr r)"
    by (cases "updatePackagePrice faults now db p c m") simp
  from updatePackagePrice_success [OF ok] obtain db1 newPrice where
    u: "upsertPrice faults db p c m = Inr (db1, newPrice)"
    and h: "PriceHistory_create faults now db1 p (or_undefined m) c ''SEK'' = Inr db'"
    by blast
  from upsertPrice_unique [OF u inv] PriceHistory_create_prices [OF h] ok
  show ?thesis by simp
qed

lemma step_preserves_unique:
  "uniqueActivePrices (prices db) \<Longrightarrow> uniqueActivePrices (prices (step db ev))"
  by (cases ev) (simp_all add: updatePackagePrice_preserves_unique)

lemma run_preserves_unique:
  "uniqueActivePrices (prices db) \<Longrightarrow> uniqueActivePrices (prices (run db events))"
  unfolding run_def
  by (induction events arbitrary: db) (simp_all add: step_preserves_unique)

lemma reachable_unique:
  assumes "prices db = []"
  shows "uniqueActivePrices (prices (run db events))"
  by (rule run_preserves_unique) (simp add: assms uniqueActivePrices_def)

lemma distinct_keys_at_most_one:
  "distinct (map f xs) \<Longrightarrow> length (filter (\<lambda>x. f x = k) xs) \<le> 1"
proof (induction xs)
  case Nil
  then show ?case by simp
next
  case (Cons x xs)
  show ?case
  proof (cases "f x = k")
    case True
    with Cons.prems have "filter (\<lambda>x. f x = k) xs = []"
      by (auto simp: filter_empty_conv image_iff)
    with True show ?thesis by simp
  next
    case False
    with Cons show ?thesis by simp
  qed
qed

lemma unique_at_most_one:
  assumes "uniqueActivePrices (prices db)"
  shows "length (activePricesFor db packageId municipalityId) \<le> 1"
proof -
  have "activePricesFor db packageId municipalityId
      = filter (\<lambda>r. (price_packageId r, price_municipalityId r) = (packageId, municipalityId))
          (filter price_is_active (prices db))"
    by (auto simp: activePricesFor_def intro: filter_cong)
  with distinct_keys_at_most_one [of "\<lambda>r. (price_packageId r, price_municipalityId r)"
      "filter price_is_active (prices db)" "(packageId, municipalityId)"] assms
  show ?thesis by (simp add: uniqueActivePrices_def)
qed

lemma updatePackagePrice_prices:
  assumes ok: "updatePackagePrice faults now db p c m = (db', Inr r)"
  shows "(case findActivePrice db p (whereMunicipalityId m) of
            Some existing \<Rightarrow>
              prices db' = map (\<lambda>r. if price_id r = price_id existing
                                 then r\<lparr>price_priceCents := c, price_currency_code := ''SEK''\<rparr>
                                 else r) (prices db)
              \<and> pi_id (pur_price r) = price_id existing
          | None \<Rightarrow>
              prices db' = prices db @
                [\<lparr>price_id = pi_id (pur_price r), price_packageId = p,
                  price_municipalityId = or_undefined m, price_priceCents = c,
                  price_is_active = True, price_currency_code = ''SEK''\<rparr>])"
proof -
  from updatePackagePrice_success [OF ok] obtain mun db1 newPrice where
    u: "upsertPrice faults db p c m = Inr (db1, newPrice)"
    and h: "PriceHistory_create faults now db1 p (or_undefined m) c ''SEK'' = Inr db'"
    and r: "r = updateResult newPrice mun"
    by blast
  from upsertPrice_cases [OF u] PriceHistory_create_prices [OF h] r
  show ?thesis by (auto simp: updateResult_def)
qed

lemma priced_setPrice:
  "updatePackagePrice no_faults 1750000060000 priced_db 1 2499 None
     = (repriced_db, Inr repriced_updated)"
  by (simp add: service_defs example_defs)

lemma run_seed_db:
  "prices seed_db = []"
  "run seed_db [SetPrice no_faults 1750000000000 1 2999 None] = priced_db"
  by (simp_all add: run_def seed_setPrice) (simp add: seed_db_def)

text \<open>
  Claim C1. In every state of the \<open>prices\<close> table reachable from an empty one, each
  key, a package with a municipality or with \<open>NULL\<close> as a key value of its own, has at
  most one active row. Every \<open>updatePackagePrice\<close> call keeps it so: a successful call updates
  the key's active row in place when there is one, leaving its identifier, and appends
  a new active row only when there is none; a rejected call changes nothing.
\<close>

theorem one_active_price_per_key:
  assumes "prices db = []"
  shows "length (activePricesFor (run db events) packageId municipalityId) \<le> 1
       \<and> length (activePricesFor
                   (fst (updatePackagePrice faults now (run db events)
                           setPackageId priceCents setMunicipalityId))
                   packageId municipalityId) \<le> 1
       \<and> (\<forall>db' r. updatePackagePrice faults now (run db events)
                       setPackageId priceCents setMunicipalityId = (db', Inr r) \<longrightarrow>
            (case findActivePrice (run db events) setPackageId
                    (whereMunicipalityId setMunicipalityId) of
               Some existing \<Rightarrow>
                 prices db' =
                   map (\<lambda>r. if price_id r = price_id existing
                             then r\<lparr>price_priceCents := priceCents,
                                    price_currency_code := ''SEK''\<rparr>
                             else r) (prices (run db events))
                 \<and> pi_id (pur_price r) = price_id existing
             | None \<Rightarrow>
                 prices db' = prices (run db events) @
                   [\<lparr>price_id = pi_id (pur_price r), price_packageId = setPackageId,
                     price_municipalityId = or_undefined setMunicipalityId,
                     price_priceCents = priceCents, price_is_active = True,
                     price_currency_code = ''SEK''\<rparr>]))"
proof (intro conjI allI impI)
  from assms show "length (activePricesFor (run db events) packageId municipalityId) \<le> 1"
    by (intro unique_at_most_one reachable_unique)
  from assms have "uniqueActivePrices (prices (run db events))"
    by (rule reachable_unique)
  then show "length (activePricesFor
                   (fst (updatePackagePrice faults now (run db events)
                           setPackageId priceCents setMunicipalityId))
                   packageId municipalityId) \<le> 1"
    by (intro unique_at_most_one updatePackagePrice_preserves_unique)
next
  fix db' r
  assume "updatePackagePrice faults now (run db events)
            setPackageId priceCents setMunicipalityId = (db', Inr r)"
  then show "case findActivePrice (run db events) setPackageId
                    (whereMunicipalityId setMunicipalityId) of
               Some existing \<Rightarrow>
                 prices db' =
                   map (\<lambda>r. if price_id r = price_id existing
                             then r\<lparr>price_priceCents := priceCents,
                                    price_currency_code := ''SEK''\<rparr>
                             else r) (prices (run db events))
                 \<and> pi_id (pur_price r) = price_id existing
             | None \<Rightarrow>
                 prices db' = prices (run db events) @
                   [\<lparr>price_id = pi_id (pur_price r), price_packageId = setPackageId,
                     price_municipalityId = or_undefined setMunicipalityId,
                     price_priceCents = priceCents, price_is_active = True,
                     price_currency_code = ''SEK''\<rparr>]"
    by (rule updatePackagePrice_prices)
qed

theorem one_active_price_per_key_witness:
  "prices seed_db = []
   \<and> run seed_db [SetPrice no_faults 1750000000000 1 2999 None] = priced_db
   \<and> activePricesFor priced_db 1 None = [basic_price]
   \<and> length (activePricesFor priced_db 1 None) \<le> 1
   \<and> updatePackagePrice no_faults 1750000060000 priced_db 1 2499 None
       = (repriced_db, Inr repriced_updated)
   \<and> findActivePrice priced_db 1 (whereMunicipalityId None) = Some basic_price
   \<and> prices repriced_db = [basic_price\<lparr>price_priceCents := 2499\<rparr>]
   \<and> length (activePricesFor repriced_db 1 None) \<le> 1"
  using one_active_price_per_key [OF run_seed_db(1),
      of "[SetPrice no_faults 1750000000000 1 2999 None]" 1 None
         no_faults 1750000060000 1 2499 None]
    run_seed_db priced_setPrice
  by (simp add: activePricesFor_def findActivePrice_def whereMunicipalityId_def truthy_def
        example_defs)

subsection \<open>The identifier of the current price\<close>

lemma find_map_preserved:
  assumes "\<And>x. P (f x) = P x"
  shows "find P (map f xs) = map_option f (find P xs)"
  by (induction xs) (simp_all add: assms)

lemma find_append_new:
  "find P xs = None \<Longrightarrow> P y \<Longrightarrow> find P (xs @ [y]) = Some y"
  by (induction xs) (auto split: if_splits)

lemma upsertPrice_then_find:
  assumes u: "upsertPrice faults db p c m = Inr (db1, newPrice)"
  shows "findActivePrice db1 p (whereMunicipalityId m) = Some newPrice"
  using upsertPrice_cases [OF u]
proof (elim disjE exE conjE)
  fix existing
  assume f: "findActivePrice db p (whereMunicipalityId m) = Some existing"
    and np: "newPrice = existing\<lparr>price_priceCents := c, price_currency_code := ''SEK''\<rparr>"
    and db1: "db1 = db\<lparr>prices := map (\<lambda>r. if price_id r = price_id existing
                               then r\<lparr>price_priceCents := c, price_currency_code := ''SEK''\<rparr>
                               else r) (prices db)\<rparr>"
  have "find (\<lambda>r. price_packageId r = p \<and> price_is_active r
                \<and> price_municipalityId r = whereMunicipalityId m)
          (map (\<lambda>r. if price_id r = price_id existing
                     then r\<lparr>price_priceCents := c, price_currency_code := ''SEK''\<rparr>
                     else r) (prices db))
      = map_option (\<lambda>r. if price_id r = price_id existing
                     then r\<lparr>price_priceCents := c, price_currency_code := ''SEK''\<rparr>
                     else r)
          (find (\<lambda>r. price_packageId r = p \<and> price_is_active r
                \<and> price_municipalityId r = whereMunicipalityId m) (prices db))"
    by (rule find_map_preserved) simp
  with f show ?thesis
    by (simp add: findActivePrice_def db1 np)
next
  assume none: "findActivePrice db p (whereMunicipalityId m) = None"
    and np: "newPrice = \<lparr>price_id = next_rowid (prices_seq db) (map price_id (prices db)),
                  price_packageId = p, price_municipalityId = or_undefined m,
                  price_priceCents = c, price_is_active = True, price_currency_code = ''SEK''\<rparr>"
    and db1: "db1 = db\<lparr>prices := prices db @ [newPrice], prices_seq := price_id newPrice\<rparr>"
  from none show ?thesis
    unfolding findActivePrice_def db1
    by (simp add: find_append_new np whereMunicipalityId_or_undefined)
qed

lemma updatePackagePrice_then_find:
  assumes ok: "updatePackagePrice faults now db p c m = (db', Inr r)"
  shows "\<exists>row. findActivePrice db' p (whereMunicipalityId m) = Some row
            \<and> price_id row = pi_id (pur_price r)"
proof -
  from updatePackagePrice_success [OF ok] obtain mun db1 newPrice where
    u: "upsertPrice faults db p c m = Inr (db1, newPrice)"
    and h: "PriceHistory_create faults now db1 p (or_undefined m) c ''SEK'' = Inr db'"
    and r: "r = updateResult newPrice mun"
    by blast
  from upsertPrice_then_find [OF u] PriceHistory_create_prices [OF h]
  have "findActivePrice db' p (whereMunicipalityId m) = Some newPrice"
    by (simp add: findActivePrice_def)
  with r show ?thesis by (simp add: updateResult_def)
qed

lemma updatePackagePrice_result_cents:
  assumes ok: "updatePackagePrice faults now db p c m = (db', Inr r)"
  shows "pi_priceCents (pur_price r) = c"
proof -
  from updatePackagePrice_success [OF ok] obtain mun db1 newPrice where
    u: "upsertPrice faults db p c m = Inr (db1, newPrice)"
    and r: "r = updateResult newPrice mun"
    by blast
  from upsertPrice_priceCents [OF u] r show ?thesis
    by (simp add: updateResult_def)
qed

text \<open>
  Claim C4. Stable identifier: when two consecutive \<open>updatePackagePrice\<close> calls for the
  same key both succeed, the second reports the \<open>Price.id\<close> the first reported. The
  second call rewrites the amount of that row in place: the \<open>prices\<close> table keeps its
  length and its identifiers, and the key has two more history rows than before the
  first call.
\<close>

theorem stable_price_id:
  assumes first: "updatePackagePrice faults1 now1 db packageId priceCents1 municipalityId
                    = (db1, Inr r1)"
    and second: "updatePackagePrice faults2 now2 db1 packageId priceCents2 municipalityId
                    = (db2, Inr r2)"
  shows "pi_id (pur_price r2) = pi_id (pur_price r1)
       \<and> pi_priceCents (pur_price r2) = priceCents2
       \<and> prices db2 =
           map (\<lambda>row. if price_id row = pi_id (pur_price r1)
                       then row\<lparr>price_priceCents := priceCents2,
                                price_currency_code := ''SEK''\<rparr>
                       else row) (prices db1)
       \<and> length (prices db2) = length (prices db1)
       \<and> map price_id (prices db2) = map price_id (prices db1)
       \<and> length (historyFor db2 packageId (or_undefined municipalityId))
           = length (historyFor db packageId (or_undefined municipalityId)) + 2"
proof -
  from updatePackagePrice_then_find [OF first] obtain row where
    row: "findActivePrice db1 packageId (whereMunicipalityId municipalityId) = Some row"
    and id: "price_id row = pi_id (pur_price r1)"
    by blast
  from updatePackagePrice_prices [OF second] row id
  have p2: "prices db2 =
           map (\<lambda>row. if price_id row = pi_id (pur_price r1)
                       then row\<lparr>price_priceCents := priceCents2,
                                price_currency_code := ''SEK''\<rparr>
                       else row) (prices db1)"
    and same: "pi_id (pur_price r2) = pi_id (pur_price r1)"
    by simp_all
  have ids: "map price_id (prices db2) = map price_id (prices db1)"
    unfolding p2 by (induction "prices db1") auto
  from updatePackagePrice_histories [OF first] updatePackagePrice_histories [OF second]
  have h: "length (historyFor db2 packageId (or_undefined municipalityId))
           = length (historyFor db packageId (or_undefined municipalityId)) + 2"
    by (simp add: historyFor_def)
  have c: "pi_priceCents (pur_price r2) = priceCents2"
    using second by (rule updatePackagePrice_result_cents)
  from same c p2 ids h show ?thesis by simp
qed


theorem stable_price_id_witness:
  "updatePackagePrice no_faults 1750000000000 seed_db 1 2999 None = (priced_db, Inr basic_updated)
   \<and> updatePackagePrice no_faults 1750000060000 priced_db 1 2499 None
       = (repriced_db, Inr repriced_updated)
   \<and> pi_id (pur_price repriced_updated) = pi_id (pur_price basic_updated)
   \<and> prices priced_db = [basic_price]
   \<and> prices repriced_db = [basic_price\<lparr>price_priceCents := 2499\<rparr>]
   \<and> length (historyFor seed_db 1 None) = 0
   \<and> length (historyFor repriced_db 1 None) = 2"
  using stable_price_id [OF seed_setPrice priced_setPrice] seed_setPrice priced_setPrice
  by (simp add: historyFor_def example_defs)

subsection \<open>\<open>getCurrentPackagePrice\<close>: the exact key\<close>

lemma findActivePrice_None_iff:
  "findActivePrice db p k = None \<longleftrightarrow> activePricesFor db p k = []"
  by (auto simp: findActivePrice_def activePricesFor_def find_None_iff filter_empty_conv)

lemma getCurrentPackagePrice_no_price:
  assumes "faults FindPackage = None" and "faults FindPrice = None"
    and "findActivePackage db p = Some pkg"
    and "findActivePrice db p (whereMunicipalityId m) = None"
  shows "getCurrentPackagePrice faults db p m = Inr (currentPriceFailure (no_active_price p m))"
  using assms by (simp add: getCurrentPackagePrice_def getCurrentPackagePrice_try_def)

lemma getCurrentPackagePrice_fault:
  "faults FindPackage = Some e
     \<Longrightarrow> getCurrentPackagePrice faults db p m = Inr (currentPriceFailure e)"
  "faults FindPackage = None \<Longrightarrow> findActivePackage db p = Some pkg \<Longrightarrow> faults FindPrice = Some e
     \<Longrightarrow> getCurrentPackagePrice faults db p m = Inr (currentPriceFailure e)"
  by (simp_all add: getCurrentPackagePrice_def getCurrentPackagePrice_try_def)

lemma getCurrentPackagePrice_found:
  assumes "faults FindPackage = None" and "faults FindPrice = None"
    and "findActivePackage db p = Some pkg"
    and "findActivePrice db p (whereMunicipalityId m) = Some priceRecord"
    and "municipalityOf db (price_municipalityId priceRecord) = Inr municipality"
  shows "getCurrentPackagePrice faults db p m =
     Inr \<lparr>cpr_success = True,
          cpr_price = Some
            \<lparr>pi_id = price_id priceRecord,
             pi_packageId = price_packageId priceRecord,
             pi_municipalityId = or_undefined (price_municipalityId priceRecord),
             pi_priceCents = price_priceCents priceRecord,
             pi_priceDisplay = convertCentsToDisplay (price_priceCents priceRecord),
             pi_currency_code = price_currency_code priceRecord,
             cur_package = toPackageInfo pkg,
             cur_municipality = municipality\<rparr>,
          cpr_error = None\<rparr>"
  using assms
  by (simp add: getCurrentPackagePrice_def getCurrentPackagePrice_try_def)

lemma priced_current_stockholm:
  "getCurrentPackagePrice no_faults priced_db 1 (Some 1) =
     Inr \<lparr>cpr_success = False, cpr_price = None,
          cpr_error = Some ''No active price found for package 1 in municipality 1''\<rparr>"
  by (simp add: service_defs example_defs no_active_price_def show_optional_def show_int_def
        show_nat.simps digit_char_def)

text \<open>
  Claim C5. Exact-key lookup, no fallback: for an active package \<open>P\<close> and a municipality
  identifier \<open>M\<close> (identifiers are never 0; 0 is read as an omitted municipality, claim C9),
  when \<open>P\<close> has an active global price but no active price for the key \<open>(P, M)\<close>,
  \<open>getCurrentPackagePrice(P, M)\<close> returns \<open>success = false\<close> with no price, never the
  global one; the message is \<open>No active price found for package P in municipality M\<close>,
  unless one of the two look-ups itself raised, whose message is then returned.
\<close>

theorem exact_key_lookup:
  assumes "findActivePackage db packageId \<noteq> None"
    and "municipalityId \<noteq> 0"
    and "activePricesFor db packageId None \<noteq> []"
    and "activePricesFor db packageId (Some municipalityId) = []"
  shows "getCurrentPackagePrice faults db packageId (Some municipalityId) =
           Inr \<lparr>cpr_success = False,
                cpr_price = None,
                cpr_error = Some
                  (case faults FindPackage of
                     Some e \<Rightarrow> e
                   | None \<Rightarrow>
                       (case faults FindPrice of
                          Some e \<Rightarrow> e
                        | None \<Rightarrow>
                            ''No active price found for package '' @ show_int packageId
                              @ '' in municipality '' @ show_int municipalityId))\<rparr>"
proof -
  from assms(1) obtain pkg where pkg: "findActivePackage db packageId = Some pkg"
    by blast
  from assms(2) have k: "whereMunicipalityId (Some municipalityId) = Some municipalityId"
    by (simp add: whereMunicipalityId_def truthy_def)
  from assms(4) have none:
    "findActivePrice db packageId (whereMunicipalityId (Some municipalityId)) = None"
    by (simp add: k findActivePrice_None_iff)
  from assms(2) have msg: "no_active_price packageId (Some municipalityId)
      = ''No active price found for package '' @ show_int packageId
          @ '' in municipality '' @ show_int municipalityId"
    by (simp add: no_active_price_def truthy_def show_optional_def)
  show ?thesis
  proof (cases "faults FindPackage")
    case (Some e)
    then show ?thesis
      by (simp add: getCurrentPackagePrice_fault(1) currentPriceFailure_def)
  next
    case fp: None
    show ?thesis
    proof (cases "faults FindPrice")
      case (Some e)
      with fp pkg show ?thesis
        by (simp add: getCurrentPackagePrice_fault(2) currentPriceFailure_def)
    next
      case None
      with fp pkg none msg show ?thesis
        by (simp add: getCurrentPackagePrice_no_price currentPriceFailure_def)
    qed
  qed
qed

theorem exact_key_lookup_witness:
  "findActivePackage priced_db 1 \<noteq> None
   \<and> (1::int) \<noteq> 0
   \<and> activePricesFor priced_db 1 None = [basic_price]
   \<and> activePricesFor priced_db 1 (Some 1) = []
   \<and> getCurrentPackagePrice no_faults priced_db 1 (Some 1) =
       Inr \<lparr>cpr_success = False, cpr_price = None,
            cpr_error = Some ''No active price found for package 1 in municipality 1''\<rparr>
   \<and> getCurrentPackagePrice no_faults priced_db 1 None =
       Inr \<lparr>cpr_success = True, cpr_price = Some basic_current, cpr_error = None\<rparr>"
proof -
  have a: "findActivePackage priced_db 1 \<noteq> None"
    by (simp add: findActivePackage_def example_defs)
  have b: "(1::int) \<noteq> 0" by simp
  have c: "activePricesFor priced_db 1 None = [basic_price]"
    by (simp add: activePricesFor_def example_defs)
  have d: "activePricesFor priced_db 1 (Some 1) = []"
    by (simp add: activePricesFor_def example_defs)
  from c have c': "activePricesFor priced_db 1 None \<noteq> []" by simp
  from exact_key_lookup [OF a b c' d, of no_faults] a c d priced_current priced_current_stockholm
  show ?thesis by simp
qed

subsection \<open>\<open>getCurrentPackagePrice\<close>: no municipality check\<close>

lemma updatePackagePrice_municipality_rejected:
  assumes "faults BeginTransaction = None" and "faults Rollback = None"
    and "faults FindPackage = None"
    and "findActivePackage db p = Some pkg"
    and "truthy m" and "faults FindMunicipality = None"
    and "findActiveMunicipality db m = None"
  shows "updatePackagePrice faults now db p c m = (db, Inl (municipality_not_found m))"
  using assms
  by (simp add: updatePackagePrice_def updatePackagePrice_try_def requireMunicipality_def)

lemma getPackagePriceHistory_municipality_rejected:
  assumes "faults FindPackage = None"
    and "findActivePackage db p = Some pkg"
    and "truthy m" and "faults FindMunicipality = None"
    and "findActiveMunicipality db m = None"
  shows "getPackagePriceHistory faults newDate db p y m
           = Inr (priceHistoryFailure (municipality_not_found m))"
  using assms
  by (simp add: getPackagePriceHistory_def getPackagePriceHistory_try_def checkMunicipality_def)

lemma uppsala_facts:
  "findActivePackage uppsala_db 1
     = Some \<lparr>pkg_id = 1, pkg_name = ''Basic'', package_code = ''BASIC'', pkg_is_active = True\<rparr>"
  "findActivePrice uppsala_db 1 (Some 2) = Some uppsala_price"
  "includeMunicipality uppsala_db (Some 2)
     = Some \<lparr>mun_id = 2, municipality_name = ''Uppsala'', municipality_code = ''UPP'',
             mun_is_active = False\<rparr>"
  "findActiveMunicipality uppsala_db (Some 2) = None"
  "activePricesFor uppsala_db 1 (whereMunicipalityId (Some 777)) = []"
  "findActiveMunicipality uppsala_db (Some 777) = None"
  "includeMunicipality uppsala_db (Some 777) = None"
  by (simp_all add: service_defs activePricesFor_def example_defs)

lemma show_small:
  "show_int 1 = ''1''" "show_int 2 = ''2''" "show_int 777 = ''777''"
  by (simp_all add: show_int_def show_nat.simps digit_char_def)

text \<open>
  Claim C10. \<open>getCurrentPackagePrice\<close> never looks the municipality up. For an active
  package and any municipality identifier, when no active price row has the exact key
  the result is \<open>success = false\<close> with the \<open>No active price found\<close> message, whatever
  the municipalities table holds; and an active price row whose municipality exists but
  is inactive is returned successfully. \<open>updatePackagePrice\<close> and
  \<open>getPackagePriceHistory\<close>, given an identifier with no active municipality, answer
  \<open>Municipality with ID ... not found or inactive\<close> instead.
\<close>

theorem current_price_skips_municipality_check:
  assumes "findActivePackage db packageId = Some packageRecord"
    and "faults FindPackage = None" and "faults FindPrice = None"
  shows "(activePricesFor db packageId (whereMunicipalityId municipalityId) = []
            \<longrightarrow> getCurrentPackagePrice faults db packageId municipalityId =
                  Inr \<lparr>cpr_success = False, cpr_price = None,
                       cpr_error = Some (no_active_price packageId municipalityId)\<rparr>)
       \<and> (M \<noteq> 0 \<and> findActivePrice db packageId (Some M) = Some priceRecord
            \<and> includeMunicipality db (Some M) = Some municipalityRecord
            \<and> \<not> mun_is_active municipalityRecord
            \<longrightarrow> getCurrentPackagePrice faults db packageId (Some M) =
                  Inr \<lparr>cpr_success = True,
                       cpr_price = Some
                         \<lparr>pi_id = price_id priceRecord,
                          pi_packageId = packageId,
                          pi_municipalityId = Some M,
                          pi_priceCents = price_priceCents priceRecord,
                          pi_priceDisplay = convertCentsToDisplay (price_priceCents priceRecord),
                          pi_currency_code = price_currency_code priceRecord,
                          cur_package = toPackageInfo packageRecord,
                          cur_municipality = Some (toMunicipalityInfo municipalityRecord)\<rparr>,
                       cpr_error = None\<rparr>)
       \<and> (truthy municipalityId \<and> findActiveMunicipality db municipalityId = None
            \<and> faults BeginTransaction = None \<and> faults Rollback = None
            \<and> faults FindMunicipality = None
            \<longrightarrow> updatePackagePrice faults now db packageId priceCents municipalityId
                  = (db, Inl (municipality_not_found municipalityId))
              \<and> getPackagePriceHistory faults newDate db packageId year municipalityId
                  = Inr \<lparr>phr_success = False, phr_history = None,
                         phr_error = Some (municipality_not_found municipalityId)\<rparr>)"
proof (intro conjI impI)
  assume "activePricesFor db packageId (whereMunicipalityId municipalityId) = []"
  with assms show "getCurrentPackagePrice faults db packageId municipalityId =
                  Inr \<lparr>cpr_success = False, cpr_price = None,
                       cpr_error = Some (no_active_price packageId municipalityId)\<rparr>"
    by (simp add: getCurrentPackagePrice_no_price findActivePrice_None_iff
          currentPriceFailure_def)
next
  assume h: "M \<noteq> 0 \<and> findActivePrice db packageId (Some M) = Some priceRecord
            \<and> includeMunicipality db (Some M) = Some municipalityRecord
            \<and> \<not> mun_is_active municipalityRecord"
  then have k: "whereMunicipalityId (Some M) = Some M"
    by (simp add: whereMunicipalityId_def truthy_def)
  from h have row: "price_packageId priceRecord = packageId"
      "price_municipalityId priceRecord = Some M"
    by (auto simp: findActivePrice_def find_Some_iff)
  from h row have mo: "municipalityOf db (price_municipalityId priceRecord)
      = Inr (Some (toMunicipalityInfo municipalityRecord))"
    by (simp add: municipalityOf_def truthy_def)
  from getCurrentPackagePrice_found [OF assms(2,3,1) _ mo, of "Some M"] h k row
  show "getCurrentPackagePrice faults db packageId (Some M) =
                  Inr \<lparr>cpr_success = True,
                       cpr_price = Some
                         \<lparr>pi_id = price_id priceRecord,
                          pi_packageId = packageId,
                          pi_municipalityId = Some M,
                          pi_priceCents = price_priceCents priceRecord,
                          pi_priceDisplay = convertCentsToDisplay (price_priceCents priceRecord),
                          pi_currency_code = price_currency_code priceRecord,
                          cur_package = toPackageInfo packageRecord,
                          cur_municipality = Some (toMunicipalityInfo municipalityRecord)\<rparr>,
                       cpr_error = None\<rparr>"
    by (simp add: or_undefined_def truthy_def)
next
  assume h: "truthy municipalityId \<and> findActiveMunicipality db municipalityId = None
            \<and> faults BeginTransaction = None \<and> faults Rollback = None
            \<and> faults FindMunicipality = None"
  with assms show "updatePackagePrice faults now db packageId priceCents municipalityId
                  = (db, Inl (municipality_not_found municipalityId))"
    by (simp add: updatePackagePrice_municipality_rejected)
  from h assms show "getPackagePriceHistory faults newDate db packageId year municipalityId
                  = Inr \<lparr>phr_success = False, phr_history = None,
                         phr_error = Some (municipality_not_found municipalityId)\<rparr>"
    by (simp add: getPackagePriceHistory_municipality_rejected priceHistoryFailure_def)
qed

theorem current_price_skips_municipality_check_witness:
  "includeMunicipality uppsala_db (Some 777) = None
   \<and> getCurrentPackagePrice no_faults uppsala_db 1 (Some 777) =
       Inr \<lparr>cpr_success = False, cpr_price = None,
            cpr_error = Some ''No active price found for package 1 in municipality 777''\<rparr>
   \<and> updatePackagePrice no_faults 1750000120000 uppsala_db 1 2599 (Some 777)
       = (uppsala_db, Inl ''Municipality with ID 777 not found or inactive'')
   \<and> findActiveMunicipality uppsala_db (Some 2) = None
   \<and> getCurrentPackagePrice no_faults uppsala_db 1 (Some 2) =
       Inr \<lparr>cpr_success = True, cpr_price = Some uppsala_current, cpr_error = None\<rparr>
   \<and> updatePackagePrice no_faults 1750000120000 uppsala_db 1 2599 (Some 2)
       = (uppsala_db, Inl ''Municipality with ID 2 not found or inactive'')
   \<and> getPackagePriceHistory no_faults jan1_utc uppsala_db 1 2025 (Some 2)
       = Inr \<lparr>phr_success = False, phr_history = None,
              phr_error = Some ''Municipality with ID 2 not found or inactive''\<rparr>"
  using current_price_skips_municipality_check [OF uppsala_facts(1),
      where faults = no_faults and municipalityId = "Some 777" and M = 2
        and priceRecord = uppsala_price
        and municipalityRecord = "\<lparr>mun_id = 2, municipality_name = ''Uppsala'',
              municipality_code = ''UPP'', mun_is_active = False\<rparr>"
        and now = 1750000120000 and priceCents = 2599 and newDate = jan1_utc and year = 2025]
    current_price_skips_municipality_check [OF uppsala_facts(1),
      where faults = no_faults and municipalityId = "Some 2" and M = 2
        and priceRecord = uppsala_price
        and municipalityRecord = "\<lparr>mun_id = 2, municipality_name = ''Uppsala'',
              municipality_code = ''UPP'', mun_is_active = False\<rparr>"
        and now = 1750000120000 and priceCents = 2599 and newDate = jan1_utc and year = 2025]
    uppsala_facts
  by (simp add: no_faults_def truthy_def no_active_price_def municipality_not_found_def
        show_optional_def show_small toMunicipalityInfo_def toPackageInfo_def
        uppsala_price_def uppsala_current_def convertCentsToDisplay_small)

subsection \<open>Two error channels\<close>

lemma updatePackagePrice_package_rejected:
  assumes "faults BeginTransaction = None" and "faults Rollback = None"
    and "faults FindPackage = None"
    and "findActivePackage db p = None"
  shows "updatePackagePrice faults now db p c m = (db, Inl (package_not_found p))"
  using assms by (simp add: updatePackagePrice_def updatePackagePrice_try_def)

lemma updatePackagePrice_negative_rejected:
  assumes "faults BeginTransaction = None" and "faults Rollback = None"
    and "faults FindPackage = None"
    and "findActivePackage db p = Some pkg"
    and "truthy m \<longrightarrow> faults FindMunicipality = None \<and> findActiveMunicipality db m \<noteq> None"
    and "c < 0"
  shows "updatePackagePrice faults now db p c m = (db, Inl ''Price cannot be negative'')"
proof -
  from assms(5) have "\<exists>mun. requireMunicipality faults db m = Inr mun"
    by (cases "truthy m") (auto simp: requireMunicipality_def)
  then obtain mun where "requireMunicipality faults db m = Inr mun" ..
  with assms show ?thesis
    by (simp add: updatePackagePrice_def updatePackagePrice_try_def)
qed

lemma updatePackagePrice_success_flag:
  assumes "updatePackagePrice faults now db p c m = (db', Inr r)"
  shows "pur_success r \<and> pur_message r = ''Price updated successfully''"
  using updatePackagePrice_success [OF assms] by (auto simp: updateResult_def)

lemma getCurrentPackagePrice_try_shape:
  "getCurrentPackagePrice_try faults db p m = Inr r
     \<Longrightarrow> (if cpr_success r then cpr_price r \<noteq> None \<and> cpr_error r = None
          else cpr_price r = None \<and> cpr_error r \<noteq> None)"
  by (auto simp: getCurrentPackagePrice_try_def currentPriceFailure_def
        split: option.splits sum.splits)

lemma getCurrentPackagePrice_returns:
  "\<exists>r. getCurrentPackagePrice faults db p m = Inr r
       \<and> (if cpr_success r then cpr_price r \<noteq> None \<and> cpr_error r = None
           else cpr_price r = None \<and> cpr_error r \<noteq> None)"
proof (cases "getCurrentPackagePrice_try faults db p m")
  case (Inl e)
  then show ?thesis
    by (simp add: getCurrentPackagePrice_def currentPriceFailure_def)
next
  case (Inr r)
  with getCurrentPackagePrice_try_shape [OF Inr] show ?thesis
    by (simp add: getCurrentPackagePrice_def)
qed

lemma getPackagePriceHistory_try_shape:
  "getPackagePriceHistory_try faults newDate db p y m = Inr r
     \<Longrightarrow> (if phr_success r then phr_history r \<noteq> None \<and> phr_error r = None
          else phr_history r = None \<and> phr_error r \<noteq> None)"
  by (auto simp: getPackagePriceHistory_try_def priceHistoryFailure_def Let_def
        split: option.splits sum.splits)

lemma getPackagePriceHistory_returns:
  "\<exists>r. getPackagePriceHistory faults newDate db p y m = Inr r
       \<and> (if phr_success r then phr_history r \<noteq> None \<and> phr_error r = None
           else phr_history r = None \<and> phr_error r \<noteq> None)"
proof (cases "getPackagePriceHistory_try faults newDate db p y m")
  case (Inl e)
  then show ?thesis
    by (simp add: getPackagePriceHistory_def priceHistoryFailure_def)
next
  case (Inr r)
  with getPackagePriceHistory_try_shape [OF Inr] show ?thesis
    by (simp add: getPackagePriceHistory_def)
qed

lemma reads_package_not_found:
  assumes "faults FindPackage = None" and "findActivePackage db p = None"
  shows "getCurrentPackagePrice faults db p m = Inr (currentPriceFailure (package_not_found p))"
    and "getPackagePriceHistory faults newDate db p y m
           = Inr (priceHistoryFailure (package_not_found p))"
  using assms
  by (simp_all add: getCurrentPackagePrice_def getCurrentPackagePrice_try_def
        getPackagePriceHistory_def getPackagePriceHistory_try_def)

lemma show_99999: "show_int 99999 = ''99999''"
  by (simp add: show_int_def show_nat.simps digit_char_def)

lemma priced_lookups:
  "findActivePackage priced_db 99999 = None"
  "findActivePackage priced_db 1 \<noteq> None"
  "findActiveMunicipality priced_db (Some 999999) = None"
  by (simp_all add: findActivePackage_def findActiveMunicipality_def example_defs)

text \<open>
  Claim C7. Error-channel asymmetry. \<open>updatePackagePrice\<close> signals a validation failure
  by rejecting its promise with an error whose message names what failed: the package
  with its identifier, the municipality with its identifier, or the negative price; a
  call that resolves always carries \<open>success = true\<close>. \<open>getCurrentPackagePrice\<close> and
  \<open>getPackagePriceHistory\<close> never reject, whatever the database calls do: they resolve
  with a result that either is a success with its payload or has \<open>success = false\<close>,
  no payload and a message, and the same missing package or municipality is reported
  through that result.
\<close>

theorem error_channels:
  "(faults BeginTransaction = None \<and> faults Rollback = None
      \<and> faults FindPackage = None
      \<and> findActivePackage db packageId = None
      \<longrightarrow> updatePackagePrice faults now db packageId priceCents municipalityId
            = (db, Inl (''Package with ID '' @ show_int packageId @ '' not found or inactive'')))
   \<and> (faults BeginTransaction = None \<and> faults Rollback = None
      \<and> faults FindPackage = None
      \<and> findActivePackage db packageId \<noteq> None
      \<and> M \<noteq> 0 \<and> faults FindMunicipality = None
      \<and> findActiveMunicipality db (Some M) = None
      \<longrightarrow> updatePackagePrice faults now db packageId priceCents (Some M)
            = (db, Inl (''Municipality with ID '' @ show_int M @ '' not found or inactive'')))
   \<and> (faults BeginTransaction = None \<and> faults Rollback = None
      \<and> faults FindPackage = None
      \<and> findActivePackage db packageId \<noteq> None
      \<and> (truthy municipalityId
            \<longrightarrow> faults FindMunicipality = None
              \<and> findActiveMunicipality db municipalityId \<noteq> None)
      \<and> priceCents < 0
      \<longrightarrow> updatePackagePrice faults now db packageId priceCents municipalityId
            = (db, Inl ''Price cannot be negative''))
   \<and> (updatePackagePrice faults now db packageId priceCents municipalityId = (db', Inr updated)
      \<longrightarrow> pur_success updated)
   \<and> (\<exists>r. getCurrentPackagePrice faults db packageId municipalityId = Inr r
         \<and> (if cpr_success r then cpr_price r \<noteq> None \<and> cpr_error r = None
             else cpr_price r = None \<and> cpr_error r \<noteq> None))
   \<and> (\<exists>r. getPackagePriceHistory faults newDate db packageId year municipalityId = Inr r
         \<and> (if phr_success r then phr_history r \<noteq> None \<and> phr_error r = None
             else phr_history r = None \<and> phr_error r \<noteq> None))
   \<and> (faults FindPackage = None \<and> findActivePackage db packageId = None
      \<longrightarrow> getCurrentPackagePrice faults db packageId municipalityId
            = Inr \<lparr>cpr_success = False, cpr_price = None,
                   cpr_error = Some (''Package with ID '' @ show_int packageId
                                      @ '' not found or inactive'')\<rparr>
        \<and> getPackagePriceHistory faults newDate db packageId year municipalityId
            = Inr \<lparr>phr_success = False, phr_history = None,
                   phr_error = Some (''Package with ID '' @ show_int packageId
                                      @ '' not found or inactive'')\<rparr>)
   \<and> (faults FindPackage = None \<and> findActivePackage db packageId \<noteq> None
      \<and> M \<noteq> 0 \<and> faults FindMunicipality = None
      \<and> findActiveMunicipality db (Some M) = None
      \<longrightarrow> getPackagePriceHistory faults newDate db packageId year (Some M)
            = Inr \<lparr>phr_success = False, phr_history = None,
                   phr_error = Some (''Municipality with ID '' @ show_int M
                                      @ '' not found or inactive'')\<rparr>)"
proof (intro conjI impI)
  assume "faults BeginTransaction = None \<and> faults Rollback = None
      \<and> faults FindPackage = None
      \<and> findActivePackage db packageId = None"
  then show "updatePackagePrice faults now db packageId priceCents municipalityId
            = (db, Inl (''Package with ID '' @ show_int packageId @ '' not found or inactive''))"
    by (simp add: updatePackagePrice_package_rejected package_not_found_def)
next
  assume h: "faults BeginTransaction = None \<and> faults Rollback = None
      \<and> faults FindPackage = None
      \<and> findActivePackage db packageId \<noteq> None
      \<and> M \<noteq> 0 \<and> faults FindMunicipality = None
      \<and> findActiveMunicipality db (Some M) = None"
  then obtain pkg where "findActivePackage db packageId = Some pkg" by blast
  with h show "updatePackagePrice faults now db packageId priceCents (Some M)
            = (db, Inl (''Municipality with ID '' @ show_int M @ '' not found or inactive''))"
    by (simp add: updatePackagePrice_municipality_rejected truthy_def
          municipality_not_found_def show_optional_def)
next
  assume h: "faults BeginTransaction = None \<and> faults Rollback = None
      \<and> faults FindPackage = None
      \<and> findActivePackage db packageId \<noteq> None
      \<and> (truthy municipalityId
            \<longrightarrow> faults FindMunicipality = None
              \<and> findActiveMunicipality db municipalityId \<noteq> None)
      \<and> priceCents < 0"
  then obtain pkg where "findActivePackage db packageId = Some pkg" by blast
  with h show "updatePackagePrice faults now db packageId priceCents municipalityId
            = (db, Inl ''Price cannot be negative'')"
    by (intro updatePackagePrice_negative_rejected) simp_all
next
  assume "updatePackagePrice faults now db packageId priceCents municipalityId = (db', Inr updated)"
  then show "pur_success updated"
    by (simp add: updatePackagePrice_success_flag)
next
  show "\<exists>r. getCurrentPackagePrice faults db packageId municipalityId = Inr r
         \<and> (if cpr_success r then cpr_price r \<noteq> None \<and> cpr_error r = None
             else cpr_price r = None \<and> cpr_error r \<noteq> None)"
    by (rule getCurrentPackagePrice_returns)
  show "\<exists>r. getPackagePriceHistory faults newDate db packageId year municipalityId = Inr r
         \<and> (if phr_success r then phr_history r \<noteq> None \<and> phr_error r = None
             else phr_history r = None \<and> phr_error r \<noteq> None)"
    by (rule getPackagePriceHistory_returns)
next
  assume h: "faults FindPackage = None \<and> findActivePackage db packageId = None"
  then show "getCurrentPackagePrice faults db packageId municipalityId
            = Inr \<lparr>cpr_success = False, cpr_price = None,
                   cpr_error = Some (''Package with ID '' @ show_int packageId
                                      @ '' not found or inactive'')\<rparr>"
    by (simp add: reads_package_not_found currentPriceFailure_def package_not_found_def)
  from h show "getPackagePriceHistory faults newDate db packageId year municipalityId
            = Inr \<lparr>phr_success = False, phr_history = None,
                   phr_error = Some (''Package with ID '' @ show_int packageId
                                      @ '' not found or inactive'')\<rparr>"
    by (simp add: reads_package_not_found priceHistoryFailure_def package_not_found_def)
next
  assume h: "faults FindPackage = None \<and> findActivePackage db packageId \<noteq> None
      \<and> M \<noteq> 0 \<and> faults FindMunicipality = None
      \<and> findActiveMunicipality db (Some M) = None"
  then obtain pkg where "findActivePackage db packageId = Some pkg" by blast
  with h show "getPackagePriceHistory faults newDate db packageId year (Some M)
            = Inr \<lparr>phr_success = False, phr_history = None,
                   phr_error = Some (''Municipality with ID '' @ show_int M
                                      @ '' not found or inactive'')\<rparr>"
    by (simp add: getPackagePriceHistory_municipality_rejected truthy_def
          priceHistoryFailure_def municipality_not_found_def show_optional_def)
qed


theorem error_channels_witness:
  "findActivePackage priced_db 99999 = None
   \<and> updatePackagePrice no_faults 1750000120000 priced_db 99999 2999 None
       = (priced_db, Inl ''Package with ID 99999 not found or inactive'')
   \<and> getCurrentPackagePrice no_faults priced_db 99999 None
       = Inr \<lparr>cpr_success = False, cpr_price = None,
              cpr_error = Some ''Package with ID 99999 not found or inactive''\<rparr>
   \<and> getPackagePriceHistory no_faults jan1_utc priced_db 99999 2025 None
       = Inr \<lparr>phr_success = False, phr_history = None,
              phr_error = Some ''Package with ID 99999 not found or inactive''\<rparr>
   \<and> findActivePackage priced_db 1 \<noteq> None
   \<and> findActiveMunicipality priced_db (Some 999999) = None
   \<and> updatePackagePrice no_faults 1750000120000 priced_db 1 (- 5) (Some 999999)
       = (priced_db, Inl ''Municipality with ID 999999 not found or inactive'')
   \<and> getPackagePriceHistory no_faults jan1_utc priced_db 1 2025 (Some 999999)
       = Inr \<lparr>phr_success = False, phr_history = None,
              phr_error = Some ''Municipality with ID 999999 not found or inactive''\<rparr>
   \<and> updatePackagePrice no_faults 1750000120000 priced_db 1 (- 5) None
       = (priced_db, Inl ''Price cannot be negative'')
   \<and> updatePackagePrice no_faults 1750000000000 seed_db 1 2999 None
       = (priced_db, Inr basic_updated)
   \<and> pur_success basic_updated"
  using error_channels [where faults = no_faults and db = priced_db and packageId = 99999
        and priceCents = 2999 and municipalityId = None and M = 999999
        and now = 1750000120000 and newDate = jan1_utc and year = 2025]
    error_channels [where faults = no_faults and db = priced_db and packageId = 1
        and priceCents = "- 5" and municipalityId = None and M = 999999
        and now = 1750000120000 and newDate = jan1_utc and year = 2025]
    error_channels [where faults = no_faults and db = seed_db and packageId = 1
        and priceCents = 2999 and municipalityId = None and M = 999999
        and now = 1750000000000 and newDate = jan1_utc and year = 2025
        and db' = priced_db and updated = basic_updated]
    priced_lookups seed_setPrice
  by (simp add: no_faults_def truthy_def show_99999 show_999999)

subsection \<open>The history query\<close>

lemma includeMunicipality_of_active:
  assumes "findActiveMunicipality db (Some k) \<noteq> None"
  shows "includeMunicipality db (Some k) \<noteq> None"
  using assms
  by (auto simp: findActiveMunicipality_def includeMunicipality_def find_None_iff)

lemma historyEntry_entryOf:
  assumes "hist_municipalityId h = None
             \<or> (truthy (hist_municipalityId h)
                  \<and> includeMunicipality db (hist_municipalityId h) \<noteq> None)"
  shows "historyEntry db h = Inr (entryOf db h)"
  using assms
  by (auto simp: historyEntry_def entryOf_def municipalityOf_def includeMunicipality_def
        or_undefined_def truthy_def split: option.splits)

lemma historyEntries_entryOf:
  assumes "\<forall>h \<in> set rows. hist_municipalityId h = key"
    and "key = None \<or> (truthy key \<and> includeMunicipality db key \<noteq> None)"
  shows "historyEntries db rows = Inr (map (entryOf db) rows)"
  using assms(1)
proof (induction rows)
  case Nil
  then show ?case by simp
next
  case (Cons row rows)
  from Cons.prems assms(2) have "historyEntry db row = Inr (entryOf db row)"
    by (intro historyEntry_entryOf) auto
  with Cons show ?case by simp
qed

lemma findHistory_mset:
  "mset (findHistory db p s e key) = mset (historyInWindow db p key s e)"
proof -
  have "filter (\<lambda>h. hist_packageId h = p \<and> s \<le> hist_createdAt h \<and> hist_createdAt h < e
                    \<and> hist_municipalityId h = key) (price_histories db)
      = historyInWindow db p key s e"
    unfolding historyInWindow_def historyFor_def filter_filter
    by (rule filter_cong) auto
  then show ?thesis by (simp add: findHistory_def)
qed

lemma findHistory_sorted:
  "sorted_wrt (\<lambda>a b. hist_createdAt b \<le> hist_createdAt a) (findHistory db p s e key)"
proof -
  have "sorted (map (\<lambda>h. - hist_createdAt h) (findHistory db p s e key))"
    unfolding findHistory_def by (rule sorted_sort_key)
  then show ?thesis by (simp add: sorted_map)
qed

lemma findHistory_set:
  "h \<in> set (findHistory db p s e key)
     \<longleftrightarrow> h \<in> set (historyFor db p key) \<and> s \<le> hist_createdAt h \<and> hist_createdAt h < e"
proof -
  have "set (findHistory db p s e key) = set (historyInWindow db p key s e)"
    using findHistory_mset [of db p s e key] by (metis set_mset_mset)
  then show ?thesis by (auto simp: historyInWindow_def)
qed

lemma getPackagePriceHistory_found:
  assumes "faults FindPackage = None" and "faults FindHistory = None"
    and "findActivePackage db p = Some pkg"
    and "truthy m \<longrightarrow> faults FindMunicipality = None \<and> findActiveMunicipality db m \<noteq> None"
  shows "getPackagePriceHistory faults newDate db p y m =
           Inr \<lparr>phr_success = True,
                phr_history = Some (map (entryOf db)
                   (findHistory db p (newDate y) (newDate (y + 1)) (whereMunicipalityId m))),
                phr_error = None\<rparr>"
proof -
  from assms(4) have c: "checkMunicipality faults db m = Inr None"
    by (cases "truthy m") (auto simp: checkMunicipality_def)
  have k: "whereMunicipalityId m = None
             \<or> (truthy (whereMunicipalityId m)
                  \<and> includeMunicipality db (whereMunicipalityId m) \<noteq> None)"
  proof (cases "truthy m")
    case True
    then obtain k where m: "m = Some k" by (cases m) (auto simp: truthy_def)
    with True assms(4) includeMunicipality_of_active [of db k] show ?thesis
      by (simp add: whereMunicipalityId_def)
  next
    case False
    then show ?thesis by (simp add: whereMunicipalityId_def)
  qed
  have "\<forall>h \<in> set (findHistory db p (newDate y) (newDate (y + 1)) (whereMunicipalityId m)).
          hist_municipalityId h = whereMunicipalityId m"
    by (simp add: findHistory_set historyFor_def)
  from historyEntries_entryOf [OF this k] assms(1,2,3) c show ?thesis
    by (simp add: getPackagePriceHistory_def getPackagePriceHistory_try_def Let_def)
qed

lemma jan1_utc_2025: "jan1_utc 2025 = 1735689600000" "jan1_utc 2026 = 1767225600000"
  by (simp_all add: jan1_utc_def)

lemma history_db_global:
  "getPackagePriceHistory no_faults jan1_utc history_db 1 2025 None =
     Inr \<lparr>phr_success = True,
          phr_history = Some (map (entryOf history_db) [in_october, in_june, at_new_year]),
          phr_error = None\<rparr>"
  by (simp add: service_defs entryOf_def jan1_utc_2025 example_defs)

lemma history_db_stockholm:
  "getPackagePriceHistory no_faults jan1_utc history_db 1 2025 (Some 1) =
     Inr \<lparr>phr_success = True,
          phr_history = Some (map (entryOf history_db) [stockholm_in_june]),
          phr_error = None\<rparr>"
  by (simp add: service_defs entryOf_def jan1_utc_2025 example_defs)

lemma history_db_lookups:
  "findActivePackage history_db 1 \<noteq> None"
  "findActiveMunicipality history_db (Some 1) \<noteq> None"
  "historyFor history_db 1 None = [at_new_year, in_june, in_october, at_next_new_year]"
  "historyInWindow history_db 1 None (jan1_utc 2025) (jan1_utc (2025 + 1))
     = [at_new_year, in_june, in_october]"
  by (simp_all add: findActivePackage_def findActiveMunicipality_def historyFor_def
        historyInWindow_def jan1_utc_2025 example_defs)

text \<open>
  Claim C6. For an active package and an omitted or active municipality,
  \<open>getPackagePriceHistory(packageId, year, municipalityId)\<close> returns exactly the history
  rows of the exact key whose \<open>createdAt\<close> lies in the half-open window from the first
  of January of \<open>year\<close>, 00:00:00.000, to the first of January of \<open>year + 1\<close>: a row
  created at the very start of the window is returned, a row created at the very start
  of the next year is not. The rows come ordered by \<open>createdAt\<close>, latest first, so rows
  created at \<open>t1 < t2 < t3\<close> are returned as \<open>[t3, t2, t1]\<close>. The window's bounds are
  the values of \<open>new Date(year, 0, 1)\<close> and \<open>new Date(year + 1, 0, 1)\<close>.
\<close>

theorem price_history_window:
  assumes "faults FindPackage = None" and "faults FindHistory = None"
    and "findActivePackage db packageId \<noteq> None"
    and "truthy municipalityId
           \<longrightarrow> faults FindMunicipality = None
             \<and> findActiveMunicipality db municipalityId \<noteq> None"
  shows "\<exists>rows.
           getPackagePriceHistory faults newDate db packageId year municipalityId =
             Inr \<lparr>phr_success = True, phr_history = Some (map (entryOf db) rows),
                  phr_error = None\<rparr>
         \<and> mset rows =
             mset (historyInWindow db packageId (whereMunicipalityId municipalityId)
                     (newDate year) (newDate (year + 1)))
         \<and> (\<forall>h. h \<in> set rows \<longleftrightarrow>
                  h \<in> set (historyFor db packageId (whereMunicipalityId municipalityId))
                \<and> newDate year \<le> hist_createdAt h
                \<and> hist_createdAt h < newDate (year + 1))
         \<and> sorted_wrt (\<lambda>a b. hist_createdAt b \<le> hist_createdAt a) rows
         \<and> sorted_wrt (\<lambda>a b. he_createdAt b \<le> he_createdAt a) (map (entryOf db) rows)"
proof -
  from assms(3) obtain pkg where pkg: "findActivePackage db packageId = Some pkg"
    by blast
  let ?rows = "findHistory db packageId (newDate year) (newDate (year + 1))
                 (whereMunicipalityId municipalityId)"
  have s: "sorted_wrt (\<lambda>a b. hist_createdAt b \<le> hist_createdAt a) ?rows"
    by (rule findHistory_sorted)
  then have "sorted_wrt (\<lambda>a b. he_createdAt b \<le> he_createdAt a) (map (entryOf db) ?rows)"
    by (simp add: sorted_wrt_map entryOf_def)
  with getPackagePriceHistory_found [OF assms(1,2) pkg assms(4)] s
    findHistory_mset [of db packageId "newDate year" "newDate (year + 1)"
      "whereMunicipalityId municipalityId"]
    findHistory_set [of _ db packageId "newDate year" "newDate (year + 1)"
      "whereMunicipalityId municipalityId"]
  show ?thesis by blast
qed


theorem price_history_window_witness:
  "no_faults FindPackage = None \<and> no_faults FindHistory = None
   \<and> no_faults FindMunicipality = None
   \<and> findActivePackage history_db 1 \<noteq> None
   \<and> truthy (Some 1) \<and> findActiveMunicipality history_db (Some 1) \<noteq> None
   \<and> hist_createdAt at_new_year = jan1_utc 2025
   \<and> hist_createdAt at_next_new_year = jan1_utc (2025 + 1)
   \<and> historyFor history_db 1 None = [at_new_year, in_june, in_october, at_next_new_year]
   \<and> getPackagePriceHistory no_faults jan1_utc history_db 1 2025 None =
       Inr \<lparr>phr_success = True,
            phr_history = Some (map (entryOf history_db) [in_october, in_june, at_new_year]),
            phr_error = None\<rparr>
   \<and> getPackagePriceHistory no_faults jan1_utc history_db 1 2025 (Some 1) =
       Inr \<lparr>phr_success = True,
            phr_history = Some (map (entryOf history_db) [stockholm_in_june]),
            phr_error = None\<rparr>
   \<and> (\<exists>rows.
         getPackagePriceHistory no_faults jan1_utc history_db 1 2025 None =
           Inr \<lparr>phr_success = True, phr_history = Some (map (entryOf history_db) rows),
                phr_error = None\<rparr>
       \<and> mset rows = mset [at_new_year, in_june, in_october]
       \<and> sorted_wrt (\<lambda>a b. hist_createdAt b \<le> hist_createdAt a) rows)"
proof -
  have f: "no_faults FindPackage = None" "no_faults FindHistory = None"
    "no_faults FindMunicipality = None"
    by (simp_all add: no_faults_def)
  have t: "truthy (Some 1)" by (simp add: truthy_def)
  have g: "truthy None \<longrightarrow> no_faults FindMunicipality = None
             \<and> findActiveMunicipality history_db None \<noteq> None"
    by (simp add: truthy_def)
  have s: "truthy (Some 1) \<longrightarrow> no_faults FindMunicipality = None
             \<and> findActiveMunicipality history_db (Some 1) \<noteq> None"
    by (simp add: f history_db_lookups)
  have k: "whereMunicipalityId None = None"
    by (simp add: whereMunicipalityId_def truthy_def)
  have b: "hist_createdAt at_new_year = jan1_utc 2025"
    "hist_createdAt at_next_new_year = jan1_utc (2025 + 1)"
    by (simp_all add: jan1_utc_2025 example_defs)
  from price_history_window [OF f(1,2) history_db_lookups(1) g, of jan1_utc 2025]
  have "\<exists>rows.
         getPackagePriceHistory no_faults jan1_utc history_db 1 2025 None =
           Inr \<lparr>phr_success = True, phr_history = Some (map (entryOf history_db) rows),
                phr_error = None\<rparr>
       \<and> mset rows = mset [at_new_year, in_june, in_october]
       \<and> sorted_wrt (\<lambda>a b. hist_createdAt b \<le> hist_createdAt a) rows"
    unfolding k history_db_lookups(4) by blast
  with price_history_window [OF f(1,2) history_db_lookups(1) s, of jan1_utc 2025]
    f t b history_db_lookups history_db_global history_db_stockholm
  show ?thesis by simp
qed

end
